theory Spec2Isabelle
  imports Main "HOL-Library.Word" "HOL-Library.Sublist"
begin

unbundle bit_operations_syntax

section \<open>JavaScript values used by the IP gate\<close>

text \<open>
  A JavaScript number is modelled as \<open>int option\<close>: \<open>None\<close> is NaN, \<open>Some n\<close> the
  integer \<open>n\<close>. Every number the gate computes is an integer or NaN; the model is exact
  as long as parsed digit runs stay below \<open>2 ^ 53\<close> (up to 15 digits).
  \<open>ToInt32\<close> and \<open>ToUint32\<close> reduce modulo \<open>2 ^ 32\<close> and send NaN to 0, so both are the
  same 32-bit word, read signed (\<open>sint\<close>) or unsigned (\<open>uint\<close>).
\<close>

type_synonym jsnum = "int option"

datatype js_value = Undefined | Str string | Num jsnum

datatype js_error = TypeError

definition to_int32 :: "jsnum \<Rightarrow> 32 word" where
  "to_int32 x = (case x of None \<Rightarrow> 0 | Some n \<Rightarrow> word_of_int n)"

text \<open>\<open>a - b\<close> and \<open>a + b\<close> on numbers: NaN is contagious.\<close>

definition js_sub :: "jsnum \<Rightarrow> jsnum \<Rightarrow> jsnum" where
  "js_sub a b = (case a of None \<Rightarrow> None | Some x \<Rightarrow> (case b of None \<Rightarrow> None | Some y \<Rightarrow> Some (x - y)))"

definition js_add :: "jsnum \<Rightarrow> jsnum \<Rightarrow> jsnum" where
  "js_add a b = (case a of None \<Rightarrow> None | Some x \<Rightarrow> (case b of None \<Rightarrow> None | Some y \<Rightarrow> Some (x + y)))"

text \<open>
  \<open>a << b\<close>: the left operand goes through ToInt32, the shift count is
  \<open>ToUint32(b) & 31\<close>, the result is a signed 32-bit integer.
\<close>

definition js_shl :: "jsnum \<Rightarrow> jsnum \<Rightarrow> jsnum" where
  "js_shl a b = Some (sint (push_bit (unat (to_int32 b AND 31)) (to_int32 a)))"

text \<open>\<open>a >>> 0\<close>: ToUint32.\<close>

definition js_ushr0 :: "jsnum \<Rightarrow> jsnum" where
  "js_ushr0 a = Some (uint (to_int32 a))"

text \<open>\<open>a & b\<close>: both operands through ToInt32, the result a signed 32-bit integer.\<close>

definition js_and :: "jsnum \<Rightarrow> jsnum \<Rightarrow> jsnum" where
  "js_and a b = Some (sint (to_int32 a AND to_int32 b))"

text \<open>
  \<open>parseInt(s, 10)\<close>: leading white space is skipped, one sign is read, then the longest
  run of decimal digits; no digit at all gives NaN. White space is the ASCII white space
  (space, tab, line feed, vertical tab, form feed, carriage return).
\<close>

definition is_space :: "char \<Rightarrow> bool" where
  "is_space c = (c \<in> set [CHR '' '', CHR 0x09, CHR 0x0A, CHR 0x0B, CHR 0x0C, CHR 0x0D])"

definition is_digit :: "char \<Rightarrow> bool" where
  "is_digit c = (c \<in> set ''0123456789'')"

definition digit_val :: "char \<Rightarrow> int" where
  "digit_val c = of_char c - 48"

definition digits_val :: "string \<Rightarrow> int" where
  "digits_val ds = foldl (\<lambda>a c. 10 * a + digit_val c) 0 ds"

definition parseInt :: "string \<Rightarrow> jsnum" where
  "parseInt s =
     (let t = dropWhile is_space s;
          neg = (case t of [] \<Rightarrow> False | c # _ \<Rightarrow> c = CHR ''-'');
          u = (case t of [] \<Rightarrow> [] | c # r \<Rightarrow> if c = CHR ''-'' \<or> c = CHR ''+'' then r else t);
          ds = takeWhile is_digit u
      in if ds = [] then None
         else Some (if neg then - digits_val ds else digits_val ds))"

text \<open>\<open>s.split(c)\<close> for a one-character separator: never an empty array.\<close>

fun split_on :: "char \<Rightarrow> string \<Rightarrow> string list" where
  "split_on c [] = [[]]"
| "split_on c (x # xs) =
     (if x = c then [] # split_on c xs
      else (case split_on c xs of [] \<Rightarrow> [[x]] | p # ps \<Rightarrow> (x # p) # ps))"

section \<open>The IP gate (class IPWhitelist)\<close>

text \<open>
  \<^verbatim>\<open>cidrToMask(prefix) { return (-1 << (32 - prefix)) >>> 0; }\<close>
\<close>

definition cidrToMask :: "jsnum \<Rightarrow> jsnum" where
  "cidrToMask pfx = js_ushr0 (js_shl (Some (- 1)) (js_sub (Some 32) pfx))"

text \<open>
  \<^verbatim>\<open>ipToLong(ip) {
    return ip.split('.').reduce((acc, octet) => (acc << 8) + parseInt(octet, 10), 0) >>> 0; }\<close>
  Only a string has a \<open>split\<close> method: on a number the call \<open>ip.split('.')\<close> throws a
  TypeError (\<open>ip.split is not a function\<close>), on \<open>undefined\<close> the property read throws.
\<close>

definition ipToLong :: "js_value \<Rightarrow> js_error + jsnum" where
  "ipToLong ip =
     (case ip of
        Str s \<Rightarrow> Inr (js_ushr0 (foldl (\<lambda>acc octet. js_add (js_shl acc (Some 8)) (parseInt octet))
                                    (Some 0) (split_on CHR ''.'' s)))
      | Num n \<Rightarrow> Inl TypeError
      | Undefined \<Rightarrow> Inl TypeError)"

text \<open>
  \<^verbatim>\<open>isIPInRange(ip, range) {
    if (range.includes('/')) {
        const [rangeIP, prefix] = range.split('/');
        const mask = this.cidrToMask(parseInt(prefix));
        const ipLong = this.ipToLong(ip);
        const rangeIPLong = this.ipToLong(rangeIP);
        const maskLong = this.ipToLong(mask);
        return (ipLong & maskLong) === (rangeIPLong & maskLong);
    }
    return ip === range; }\<close>
  The client address is a string or \<open>undefined\<close> (\<open>None\<close>). The destructuring gives
  \<open>undefined\<close> for a part that the split does not have, and \<open>parseInt(undefined)\<close> is
  NaN. The mask handed to \<open>ipToLong\<close> is the number that \<open>cidrToMask\<close> returned.
\<close>

definition isIPInRange :: "string option \<Rightarrow> string \<Rightarrow> js_error + bool" where
  "isIPInRange ip rng =
     (if CHR ''/'' \<in> set rng then
        (let parts = split_on CHR ''/'' rng;
             rangeIP = (case parts of [] \<Rightarrow> Undefined | a # _ \<Rightarrow> Str a);
             pfx = (case parts of _ # b # _ \<Rightarrow> Str b | _ \<Rightarrow> Undefined);
             mask = cidrToMask (case pfx of Str b \<Rightarrow> parseInt b | _ \<Rightarrow> None)
         in case ipToLong (case ip of None \<Rightarrow> Undefined | Some s \<Rightarrow> Str s) of
              Inl e \<Rightarrow> Inl e
            | Inr ipLong \<Rightarrow>
               (case ipToLong rangeIP of
                  Inl e \<Rightarrow> Inl e
                | Inr rangeIPLong \<Rightarrow>
                   (case ipToLong (Num mask) of
                      Inl e \<Rightarrow> Inl e
                    | Inr maskLong \<Rightarrow>
                        Inr (js_and ipLong maskLong = js_and rangeIPLong maskLong))))
      else Inr (ip = Some rng))"

text \<open>
  The cache: two \<open>Set\<close>s of strings. A JavaScript \<open>Set\<close> keeps its members in insertion
  order without duplicates, and \<open>for (... of set)\<close> visits them in that order, so a set is
  a duplicate-free list here.
\<close>

record ip_gate =
  whitelist :: "string list"
  adminIPs :: "string list"

definition set_add :: "string list \<Rightarrow> string \<Rightarrow> string list" where
  "set_add xs x = (if x \<in> set xs then xs else xs @ [x])"

text \<open>\<open>set.has(ip)\<close>: the sets hold strings only, so \<open>undefined\<close> is never a member.\<close>

definition set_has :: "string list \<Rightarrow> string option \<Rightarrow> bool" where
  "set_has xs ip = (case ip of None \<Rightarrow> False | Some s \<Rightarrow> s \<in> set xs)"

text \<open>A row of the \<open>ipWhitelist\<close> table.\<close>

record ip_whitelist_row =
  ipAddress :: string
  isAdminIP :: bool
  enabled :: bool

text \<open>
  \<^verbatim>\<open>async loadWhitelist() {
    try {
        const whitelistEntries = await prisma.ipWhitelist.findMany({ where: { enabled: true } });
        this.whitelist.clear();
        this.adminIPs.clear();
        whitelistEntries.forEach(entry => {
            if (entry.isAdminIP) { this.adminIPs.add(entry.ipAddress); }
            else { this.whitelist.add(entry.ipAddress); }
        });
    } catch (error) { logger.error(...); } }\<close>
  The table is \<open>None\<close> when the query rejects. Everything after the \<open>await\<close> is one
  synchronous block.
\<close>

definition add_entry :: "ip_gate \<Rightarrow> ip_whitelist_row \<Rightarrow> ip_gate" where
  "add_entry g entry =
     (if isAdminIP entry then g\<lparr>adminIPs := set_add (adminIPs g) (ipAddress entry)\<rparr>
      else g\<lparr>whitelist := set_add (whitelist g) (ipAddress entry)\<rparr>)"

definition loadWhitelist :: "ip_whitelist_row list option \<Rightarrow> ip_gate \<Rightarrow> ip_gate" where
  "loadWhitelist table g =
     (case table of
        None \<Rightarrow> g
      | Some rows \<Rightarrow>
          foldl add_entry (g\<lparr>whitelist := [], adminIPs := []\<rparr>) (filter enabled rows))"

text \<open>
  The same function, instrumented: the cache after each statement that writes to it
  (\<open>clear\<close>, \<open>clear\<close>, then one \<open>add\<close> per entry), in execution order.
\<close>

fun add_entries_trace :: "ip_gate \<Rightarrow> ip_whitelist_row list \<Rightarrow> ip_gate list" where
  "add_entries_trace g [] = []"
| "add_entries_trace g (entry # es) = add_entry g entry # add_entries_trace (add_entry g entry) es"

definition loadWhitelist_trace :: "ip_whitelist_row list option \<Rightarrow> ip_gate \<Rightarrow> ip_gate list" where
  "loadWhitelist_trace table g =
     (case table of
        None \<Rightarrow> []
      | Some rows \<Rightarrow>
          g\<lparr>whitelist := []\<rparr> # g\<lparr>whitelist := [], adminIPs := []\<rparr> #
          add_entries_trace (g\<lparr>whitelist := [], adminIPs := []\<rparr>) (filter enabled rows))"

text \<open>
  \<^verbatim>\<open>getClientIP(req) {
    return req.ip || req.headers['x-forwarded-for']?.split(',')[0] || req.connection.remoteAddress; }\<close>
  Each of the three is a string or \<open>undefined\<close>; \<open>||\<close> skips \<open>undefined\<close> and the empty
  string.
\<close>

record request =
  path :: string
  ip :: "string option"
  x_forwarded_for :: "string option"
  remoteAddress :: "string option"

definition truthy :: "string option \<Rightarrow> bool" where
  "truthy v = (case v of None \<Rightarrow> False | Some s \<Rightarrow> s \<noteq> [])"

definition getClientIP :: "request \<Rightarrow> string option" where
  "getClientIP req =
     (if truthy (ip req) then ip req
      else let fwd = (case x_forwarded_for req of
                        None \<Rightarrow> None
                      | Some h \<Rightarrow> (case split_on CHR '','' h of [] \<Rightarrow> None | a # _ \<Rightarrow> Some a))
           in if truthy fwd then fwd else remoteAddress req)"

text \<open>
  \<^verbatim>\<open>isIPAllowed(ip) {
    if (this.whitelist.has(ip)) { return true; }
    for (const whitelistedIP of this.whitelist) {
        if (this.isIPInRange(ip, whitelistedIP)) { return true; }
    }
    return false; }\<close>
\<close>

fun any_in_range :: "string option \<Rightarrow> string list \<Rightarrow> js_error + bool" where
  "any_in_range a [] = Inr False"
| "any_in_range a (whitelistedIP # rest) =
     (case isIPInRange a whitelistedIP of
        Inl e \<Rightarrow> Inl e
      | Inr True \<Rightarrow> Inr True
      | Inr False \<Rightarrow> any_in_range a rest)"

definition isIPAllowed :: "ip_gate \<Rightarrow> string option \<Rightarrow> js_error + bool" where
  "isIPAllowed g a = (if set_has (whitelist g) a then Inr True else any_in_range a (whitelist g))"

text \<open>
  \<^verbatim>\<open>middleware(req, res, next) {
    const clientIP = this.getClientIP(req);
    const path = req.path;
    if (path === '/health') { return next(); }
    if (path.startsWith('/api/auth')) { return next(); }
    if (this.whitelist.has(clientIP)) { return next(); }
    if (path.startsWith('/api/admin')) {
        if (this.adminIPs.has(clientIP)) { return next(); }
        logger.warn(...);
        return res.status(403).json({ error: 'Access denied',
            message: 'Admin access restricted to authorized IP addresses' });
    }
    if (this.isIPAllowed(clientIP)) { return next(); }
    logger.warn(...);
    res.status(403).json({ error: 'Access denied',
        message: 'Your IP address is not authorized to access this resource' }); }\<close>
  The outcome is \<open>Next\<close> or the 403 response with its message; an exception that leaves
  the handler is \<open>Inl\<close>. The two \<open>logger.warn\<close> calls precede each 403 and are not
  modelled.
\<close>

datatype gate_response = Next | Denied string

definition middleware :: "ip_gate \<Rightarrow> request \<Rightarrow> js_error + gate_response" where
  "middleware g req =
     (let clientIP = getClientIP req in
      if path req = ''/health'' then Inr Next
      else if prefix ''/api/auth'' (path req) then Inr Next
      else if set_has (whitelist g) clientIP then Inr Next
      else if prefix ''/api/admin'' (path req) then
        (if set_has (adminIPs g) clientIP then Inr Next
         else Inr (Denied ''Admin access restricted to authorized IP addresses''))
      else
        (case isIPAllowed g clientIP of
           Inl e \<Rightarrow> Inl e
         | Inr True \<Rightarrow> Inr Next
         | Inr False \<Rightarrow> Inr (Denied ''Your IP address is not authorized to access this resource'')))"

text \<open>
  The process is single-threaded: a handler runs until it returns or reaches an \<open>await\<close>,
  and only then does the event loop start the next one. \<open>middleware\<close> has no \<open>await\<close>, so
  a request is checked in one turn. \<open>loadWhitelist\<close> has one, on the query: a reload is a
  first turn that issues the query and writes nothing, and a later turn, when the query
  has settled, that runs the rest of the function with the table read. A schedule is the
  list of turns in the order the event loop takes them; running it from a cache gives the
  cache at the end and the answers to the requests, in order.
\<close>

datatype gate_event =
    ReloadStarts
  | ReloadResumes "ip_whitelist_row list option"
  | Request request

fun run_events :: "ip_gate \<Rightarrow> gate_event list \<Rightarrow> ip_gate \<times> (js_error + gate_response) list" where
  "run_events g [] = (g, [])"
| "run_events g (ReloadStarts # evs) = run_events g evs"
| "run_events g (ReloadResumes table # evs) = run_events (loadWhitelist table g) evs"
| "run_events g (Request req # evs) =
     (case run_events g evs of (g', answers) \<Rightarrow> (g', middleware g req # answers))"

section \<open>What the specification asks of the IP gate\<close>

text \<open>
  The 32-bit mask with exactly \<open>p\<close> leading one bits, as the specification describes the
  mask of a prefix of length \<open>p\<close>: 0 for /0, all ones for /32.
\<close>

definition leading_ones_mask :: "nat \<Rightarrow> int" where
  "leading_ones_mask p = 2 ^ 32 - 2 ^ (32 - p)"

text \<open>
  Membership by integer mask comparison, \<open>ip & mask == network & mask\<close>, as the
  specification words it; an entry without \<open>/\<close> is an exact address.
\<close>

definition cidr_match :: "string \<Rightarrow> string \<Rightarrow> bool" where
  "cidr_match a rng =
     (if CHR ''/'' \<in> set rng then
        (case split_on CHR ''/'' rng of
           network # pfx # _ \<Rightarrow>
             (case (ipToLong (Str a), ipToLong (Str network), parseInt pfx) of
                (Inr ipLong, Inr networkLong, Some p) \<Rightarrow>
                   js_and ipLong (Some (leading_ones_mask (nat p)))
                     = js_and networkLong (Some (leading_ones_mask (nat p)))
              | _ \<Rightarrow> False)
         | _ \<Rightarrow> False)
      else a = rng)"

definition general_match :: "ip_gate \<Rightarrow> string option \<Rightarrow> bool" where
  "general_match g a = (case a of None \<Rightarrow> False | Some s \<Rightarrow> list_ex (cidr_match s) (whitelist g))"

definition is_open_path :: "string \<Rightarrow> bool" where
  "is_open_path p = (p = ''/health'' \<or> prefix ''/api/auth'' p)"

text \<open>
  The decision rule of the specification, in its two possible readings. Read as a chain
  where the first rule that applies decides: open paths pass, then any request whose
  address matches the general list passes, then an admin path passes on an exact match in
  the admin list, and everything else is rejected.
\<close>

definition gate_rule_first_match :: "ip_gate \<Rightarrow> request \<Rightarrow> bool" where
  "gate_rule_first_match g req =
     (if is_open_path (path req) then True
      else if general_match g (getClientIP req) then True
      else if prefix ''/api/admin'' (path req) then set_has (adminIPs g) (getClientIP req)
      else False)"

text \<open>
  Read with "additionally" taken literally: an admin path needs the general match and the
  exact match in the admin list.
\<close>

definition gate_rule_conjunctive :: "ip_gate \<Rightarrow> request \<Rightarrow> bool" where
  "gate_rule_conjunctive g req =
     (if is_open_path (path req) then True
      else if prefix ''/api/admin'' (path req)
        then general_match g (getClientIP req) \<and> set_has (adminIPs g) (getClientIP req)
      else general_match g (getClientIP req))"

section \<open>The email service (class EmailService)\<close>

text \<open>
  The message of a caught error, \<open>error.message\<close>: the text given to \<open>new Error(...)\<close> or
  reported by the transport, or the engine's own text for a TypeError, which the source
  does not fix.
\<close>

datatype message = Message string | TypeErrorMessage

text \<open>
  A template context is a flat object of strings; \<open>{ ...a, ...b }\<close> is \<open>a ++ b\<close>, the keys
  of \<open>b\<close> winning.
\<close>

type_synonym template_context = "string \<rightharpoonup> string"

text \<open>A compiled Handlebars template: a function of the context that returns HTML or throws.\<close>

type_synonym template = "template_context \<Rightarrow> message + string"

record mail =
  mail_from :: string
  mail_to :: string
  mail_subject :: string
  mail_html :: string
  mail_text :: string

text \<open>
  The outside world of the service: the state of the mail transport, and the effects in
  the order they happen, a call of \<open>transporter.sendMail\<close> or a timer of so many
  milliseconds that the caller awaits.
\<close>

datatype effect = SendMail mail | Delay nat

record 't world =
  transport_state :: 't
  effects :: "effect list"

text \<open>
  \<open>transporter.sendMail(mailOptions)\<close> resolves with a message identifier or rejects.
  \<open>transporter\<close> is \<open>null\<close> until \<open>initialize\<close> has created it. \<open>templates\<close> holds
  the own properties of the object \<open>this.templates\<close>. \<open>htmlToText\<close>, a chain of
  \<open>String.replace\<close> calls and a \<open>trim\<close>, is taken as a function on strings.
\<close>

record 't email_service =
  transporter :: "('t \<Rightarrow> mail \<Rightarrow> 't \<times> (message + string)) option"
  templates :: "string \<rightharpoonup> template"
  htmlToText :: "string \<Rightarrow> string"

text \<open>What \<open>sendEmail\<close> reads from the process: the year and three environment variables.\<close>

record process_env =
  year :: string
  FRONTEND_URL :: "string option"
  SMTP_FROM :: "string option"
  SMTP_USER :: "string option"

text \<open>
  \<open>this.templates\<close> is created as \<open>{}\<close>, so \<open>this.templates[templateName]\<close> also finds
  what the object inherits from \<open>Object.prototype\<close>. Each inherited value is truthy and
  passes the test \<open>!template\<close>. Called as \<open>template({...})\<close>, with no receiver,
  \<open>toString\<close> returns the string \<open>[object Undefined]\<close>; \<open>constructor\<close> returns its
  argument, an object, on which \<open>htmlToText\<close> then throws a TypeError; \<open>__proto__\<close> is
  not callable; the others throw a TypeError on the missing receiver.
\<close>

definition object_prototype_names :: "string list" where
  "object_prototype_names =
     [''constructor'', ''__defineGetter__'', ''__defineSetter__'', ''hasOwnProperty'',
      ''__lookupGetter__'', ''__lookupSetter__'', ''isPrototypeOf'', ''propertyIsEnumerable'',
      ''toString'', ''valueOf'', ''__proto__'', ''toLocaleString'']"

text \<open>
  The first statements of the \<open>try\<close> block of \<open>sendEmail\<close>, up to the rendered HTML:
  \<^verbatim>\<open>const template = this.templates[templateName];
  if (!template) { throw new Error(`Template "${templateName}" not found`); }
  const html = template({ ...data, year: ..., baseUrl: ..., supportEmail: ... });\<close>
\<close>

definition render :: "'t email_service \<Rightarrow> process_env \<Rightarrow> string \<Rightarrow> template_context \<Rightarrow> message + string" where
  "render svc env templateName data =
     (case templates svc templateName of
        Some template \<Rightarrow>
          template (data ++ [''year'' \<mapsto> year env,
                             ''baseUrl'' \<mapsto> (if truthy (FRONTEND_URL env) then the (FRONTEND_URL env)
                                               else ''http://localhost:3000''),
                             ''supportEmail'' \<mapsto> ''welfare@psntaraba.org.ng''])
      | None \<Rightarrow>
          if templateName = ''toString'' then Inr ''[object Undefined]''
          else if templateName \<in> set object_prototype_names then Inl TypeErrorMessage
          else Inl (Message (''Template \"'' @ templateName @ ''\" not found'')))"

record send_result =
  success :: bool
  messageId :: "string option"
  error :: "message option"
  to :: string
  subject :: "string option"

text \<open>
  The body of the \<open>try\<close> block: \<open>Inl\<close> is an exception raised inside it.
  \<^verbatim>\<open>const mailOptions = {
      from: `"PSN Taraba Welfare" <${process.env.SMTP_FROM || process.env.SMTP_USER}>`,
      to, subject, html, text: this.htmlToText(html) };
  const info = await this.transporter.sendMail(mailOptions);
  return { success: true, messageId: info.messageId, to, subject };\<close>
\<close>

definition mailOptions :: "'t email_service \<Rightarrow> process_env \<Rightarrow> string \<Rightarrow> string \<Rightarrow> string \<Rightarrow> mail" where
  "mailOptions svc env rcpt subj html =
     \<lparr>mail_from = ''\"PSN Taraba Welfare\" <''
          @ (if truthy (SMTP_FROM env) then the (SMTP_FROM env)
             else (case SMTP_USER env of None \<Rightarrow> ''undefined'' | Some u \<Rightarrow> u))
          @ ''>'',
      mail_to = rcpt, mail_subject = subj, mail_html = html,
      mail_text = htmlToText svc html\<rparr>"

definition sendEmail_try ::
  "'t email_service \<Rightarrow> process_env \<Rightarrow> 't world \<Rightarrow> string \<Rightarrow> string \<Rightarrow> string \<Rightarrow> template_context
     \<Rightarrow> 't world \<times> (message + send_result)" where
  "sendEmail_try svc env w rcpt subj templateName data =
     (case render svc env templateName data of
        Inl e \<Rightarrow> (w, Inl e)
      | Inr html \<Rightarrow>
          (case transporter svc of
             None \<Rightarrow> (w, Inl TypeErrorMessage)
           | Some sendMail \<Rightarrow>
               (case sendMail (transport_state w) (mailOptions svc env rcpt subj html) of
                  (ts, Inl e) \<Rightarrow>
                    (w\<lparr>transport_state := ts,
                       effects := effects w @ [SendMail (mailOptions svc env rcpt subj html)]\<rparr>,
                     Inl e)
                | (ts, Inr mid) \<Rightarrow>
                    (w\<lparr>transport_state := ts,
                       effects := effects w @ [SendMail (mailOptions svc env rcpt subj html)]\<rparr>,
                     Inr \<lparr>success = True, messageId = Some mid, error = None,
                          to = rcpt, subject = Some subj\<rparr>))))"

text \<open>
  \<^verbatim>\<open>async sendEmail(to, subject, templateName, data = {}) {
    try { ... }
    catch (error) {
        console.error('Email sending failed:', error.message);
        // Log error but don't crash the application
        return { success: false, error: error.message, to, subject };
    } }\<close>
  The result is \<open>Inr\<close> of the returned object; \<open>Inl\<close> would be an exception that reaches
  the caller.
\<close>

definition sendEmail ::
  "'t email_service \<Rightarrow> process_env \<Rightarrow> 't world \<Rightarrow> string \<Rightarrow> string \<Rightarrow> string \<Rightarrow> template_context
     \<Rightarrow> 't world \<times> (message + send_result)" where
  "sendEmail svc env w rcpt subj templateName data =
     (case sendEmail_try svc env w rcpt subj templateName data of
        (w', Inr result) \<Rightarrow> (w', Inr result)
      | (w', Inl e) \<Rightarrow>
          (w', Inr \<lparr>success = False, messageId = None, error = Some e,
                    to = rcpt, subject = Some subj\<rparr>))"

record recipient =
  email :: string
  variables :: template_context

record bulk_summary =
  total :: nat
  sent :: nat
  failed :: nat
  results :: "send_result list"

text \<open>
  \<^verbatim>\<open>async sendBulkEmails(recipients, subject, templateName, data = {}) {
    const results = [];
    for (const recipient of recipients) {
        try {
            const result = await this.sendEmail(recipient.email, subject, templateName,
                { ...data, ...recipient.variables });
            results.push(result);
            // Delay to avoid rate limiting
            await new Promise(resolve => setTimeout(resolve, 100));
        } catch (error) {
            results.push({ success: false, error: error.message, to: recipient.email });
        }
    }
    return { total: recipients.length,
             sent: results.filter(r => r.success).length,
             failed: results.filter(r => !r.success).length,
             results }; }\<close>
  The loop, with the \<open>results\<close> array as accumulator.
\<close>

fun sendBulkEmails_loop ::
  "'t email_service \<Rightarrow> process_env \<Rightarrow> string \<Rightarrow> string \<Rightarrow> template_context
     \<Rightarrow> 't world \<Rightarrow> recipient list \<Rightarrow> send_result list \<Rightarrow> 't world \<times> send_result list" where
  "sendBulkEmails_loop svc env subj templateName data w [] acc = (w, acc)"
| "sendBulkEmails_loop svc env subj templateName data w (r # rs) acc =
     (case sendEmail svc env w (email r) subj templateName (data ++ variables r) of
        (w', Inr result) \<Rightarrow>
          sendBulkEmails_loop svc env subj templateName data
            (w'\<lparr>effects := effects w' @ [Delay 100]\<rparr>) rs (acc @ [result])
      | (w', Inl e) \<Rightarrow>
          sendBulkEmails_loop svc env subj templateName data w' rs
            (acc @ [\<lparr>success = False, messageId = None, error = Some e,
                     to = email r, subject = None\<rparr>]))"

definition sendBulkEmails ::
  "'t email_service \<Rightarrow> process_env \<Rightarrow> 't world \<Rightarrow> recipient list \<Rightarrow> string \<Rightarrow> string
     \<Rightarrow> template_context \<Rightarrow> 't world \<times> bulk_summary" where
  "sendBulkEmails svc env w recipients subj templateName data =
     (case sendBulkEmails_loop svc env subj templateName data w recipients [] of
        (w', rs) \<Rightarrow>
          (w', \<lparr>total = length recipients,
                sent = length (filter success rs),
                failed = length (filter (\<lambda>r. \<not> success r) rs),
                results = rs\<rparr>))"

text \<open>
  One recipient's share of the effects of a bulk send: at most one call of the transport,
  addressed to that recipient, and then the timer of 100 milliseconds.
\<close>

fun is_attempt_block :: "recipient \<Rightarrow> effect list \<Rightarrow> bool" where
  "is_attempt_block r [Delay n] = (n = 100)"
| "is_attempt_block r [SendMail m, Delay n] = (mail_to m = email r \<and> n = 100)"
| "is_attempt_block r _ = False"

text \<open>
  The transport used for a list of mails one call after the other: each call starts in
  the state the call before it left. The result is the state after the last call and the
  answers in the order of the calls, \<open>Inr\<close> of the message id when the promise of
  \<open>sendMail\<close> resolves, \<open>Inl\<close> of the error's message when it rejects.
\<close>

fun transport_run ::
  "('t \<Rightarrow> mail \<Rightarrow> 't \<times> (message + string)) \<Rightarrow> 't \<Rightarrow> mail list \<Rightarrow> 't \<times> (message + string) list" where
  "transport_run sendMail ts [] = (ts, [])"
| "transport_run sendMail ts (m # ms) =
     (case sendMail ts m of
        (ts', a) \<Rightarrow>
          (case transport_run sendMail ts' ms of (ts'', answers) \<Rightarrow> (ts'', a # answers)))"

text \<open>
  The object \<open>sendEmail\<close> returns for an answer of the transport: the one of its \<open>try\<close>
  block when the call resolved, the one of its \<open>catch\<close> block when it rejected.
\<close>

definition send_result_of :: "string \<Rightarrow> string \<Rightarrow> message + string \<Rightarrow> send_result" where
  "send_result_of rcpt subj a =
     (case a of
        Inr mid \<Rightarrow> \<lparr>success = True, messageId = Some mid, error = None,
                     to = rcpt, subject = Some subj\<rparr>
      | Inl e \<Rightarrow> \<lparr>success = False, messageId = None, error = Some e,
                   to = rcpt, subject = Some subj\<rparr>)"

section \<open>The member dashboard: saving a next of kin\<close>

text \<open>
  What the user types is a JavaScript string, a sequence of UTF-16 code units, here
  16-bit words. \<open>String.prototype.trim\<close> and the class \<open>\s\<close> of a regular expression
  take the same characters as white space, WhiteSpace and LineTerminator of the language:
  U+0009 to U+000D, U+0020, U+00A0, U+1680, U+2000 to U+200A, U+2028, U+2029, U+202F,
  U+205F, U+3000 and U+FEFF. \<open>js\<close> writes an ASCII literal as code units.
\<close>

type_synonym code_unit = "16 word"

type_synonym js_string = "code_unit list"





text \<open>
  \<open>DashboardState\<close>, as far as \<open>saveNewKin\<close> touches it. Identifiers are strings;
  \<open>currentEditId\<close> is \<open>null\<close> (\<open>None\<close>) outside an edit.
\<close>

record kin =
  kin_id :: string
  fullName :: js_string
  relationship :: js_string
  phone :: js_string
  kin_email :: js_string
  address :: js_string
  isPrimary :: bool
  kin_notes :: js_string




















section \<open>The backup service (class BackupService)\<close>

text \<open>
  A row of the \<open>backup\<close> table as \<open>createBackup\<close> writes it. The failed row carries
  neither size nor location; the completed row carries no error.
\<close>

record backup_record =
  rec_backupId :: string
  rec_type :: string
  rec_size :: "jsnum option"
  rec_location :: "string option"
  rec_status :: string
  rec_createdById :: string
  rec_error :: "string option"

text \<open>
  The table is the list of its rows from oldest to newest by \<open>createdAt\<close>, which the
  database sets when a row is created: \<open>create\<close> appends.
\<close>

type_synonym backup_table = "backup_record list"

text \<open>
  What one run of \<open>createBackup\<close> meets outside the process: the names derived from the
  clock, and for each external step whether it fails (\<open>Some\<close> the error's message) or
  what it yields. \<open>s3_bucket\<close> is \<open>Some\<close> when both \<open>this.s3\<close> and
  \<open>this.bucketName\<close> are set.
\<close>

record backup_env =
  backupId :: string
  backupDir :: string
  mkdir_error :: "string option"
  database_file :: string
  pg_dump_error :: "string option"
  uploads_file :: string
  tar_error :: "string option"
  uploads_file_exists :: bool
  du_stdout :: "string option"
  writeFile_error :: "string option"
  s3_bucket :: "string option"
  s3_upload_error :: "string option"
  create_completed_error :: "string option"
  create_failed_error :: "string option"
  cleanup_query_error :: "string option"

text \<open>
  \<^verbatim>\<open>async backupDatabase(backupPath) {
    ...
    try { ... await execPromise(command); return filename; }
    catch (error) { throw new Error(`Database backup failed: ${error.message}`); } }\<close>
\<close>

definition backupDatabase :: "backup_env \<Rightarrow> string + string" where
  "backupDatabase env =
     (case pg_dump_error env of
        Some msg \<Rightarrow> Inl (''Database backup failed: '' @ msg)
      | None \<Rightarrow> Inr (database_file env))"

text \<open>
  \<^verbatim>\<open>async backupUploads(backupPath) {
    ...
    try {
        await execPromise(command);
        try { await fs.access(filepath); return filename; }
        catch { return null; }
    } catch (error) { logger.error('Uploads backup failed:', error); return null; } }\<close>
\<close>

definition backupUploads :: "backup_env \<Rightarrow> string option" where
  "backupUploads env =
     (case tar_error env of
        Some msg \<Rightarrow> None
      | None \<Rightarrow> if uploads_file_exists env then Some (uploads_file env) else None)"

text \<open>\<open>stdout.trim()\<close> on the output of \<open>du\<close>, which is ASCII text.\<close>

definition trim :: "string \<Rightarrow> string" where
  "trim s = rev (dropWhile is_space (rev (dropWhile is_space s)))"

text \<open>
  \<^verbatim>\<open>async getFolderSize(folderPath) {
    try { const { stdout } = await execPromise(command); return parseInt(stdout.trim()); }
    catch (error) { return 0; } }\<close>
\<close>

definition getFolderSize :: "backup_env \<Rightarrow> jsnum" where
  "getFolderSize env =
     (case du_stdout env of
        None \<Rightarrow> Some 0
      | Some out \<Rightarrow> parseInt (trim out))"

text \<open>
  \<^verbatim>\<open>async uploadToS3(backupId, backupPath) {
    if (!this.s3 || !this.bucketName) { return null; }
    try { ... upload every file ...; return `s3://${this.bucketName}/backups/${backupId}`; }
    catch (error) { logger.error('S3 upload failed:', error); throw error; } }\<close>
\<close>

definition uploadToS3 :: "backup_env \<Rightarrow> string + string option" where
  "uploadToS3 env =
     (case s3_bucket env of
        None \<Rightarrow> Inr None
      | Some bucket \<Rightarrow>
          (case s3_upload_error env of
             Some msg \<Rightarrow> Inl msg
           | None \<Rightarrow> Inr (Some (''s3://'' @ bucket @ ''/backups/'' @ backupId env))))"

text \<open>
  \<^verbatim>\<open>async cleanupOldBackups() {
    try {
        const backups = await prisma.backup.findMany({ orderBy: { createdAt: 'desc' }, ... });
        if (backups.length > 30) {
            const toDelete = backups.slice(30);
            await prisma.backup.deleteMany({ where: { id: { in: deleteIds } } });
        }
        ... delete local backup directories older than 7 days ...
    } catch (error) { logger.error('Backup cleanup failed:', error); } }\<close>
  On the table: the 30 newest rows stay. The local directories are not modelled.
\<close>

definition cleanupOldBackups :: "backup_env \<Rightarrow> backup_table \<Rightarrow> backup_table" where
  "cleanupOldBackups env tbl =
     (case cleanup_query_error env of
        Some msg \<Rightarrow> tbl
      | None \<Rightarrow> if length tbl > 30 then drop (length tbl - 30) tbl else tbl)"

record backup_result =
  res_backupId :: string
  res_backupRecord :: backup_record
  res_localPath :: string
  res_s3Location :: "string option"
  res_size :: jsnum

text \<open>
  The \<open>try\<close> block of \<open>createBackup\<close>; \<open>Inl\<close> is the message of an exception raised in
  it.
  \<^verbatim>\<open>const backupPath = path.join(this.backupDir, backupId);
  await fs.mkdir(backupPath, { recursive: true });
  const dbBackupFile = await this.backupDatabase(backupPath);       // 1.
  const uploadsBackupFile = await this.backupUploads(backupPath);   // 2.
  const metadata = { ..., size: await this.getFolderSize(backupPath) };   // 3.
  await fs.writeFile(path.join(backupPath, 'metadata.json'), ...);
  let s3Location = null;                                            // 4.
  if (this.s3 && this.bucketName) { s3Location = await this.uploadToS3(backupId, backupPath); }
  const backupRecord = await prisma.backup.create({ data: {         // 5.
      backupId, type, size: metadata.size, location: s3Location || `local:${backupPath}`,
      status: 'completed', createdById: userId, metadata: metadata } });
  await this.cleanupOldBackups();                                   // 6.
  return { success: true, backupId, backupRecord, localPath: backupPath, s3Location,
           size: metadata.size };\<close>
\<close>

definition createBackup_try ::
  "backup_env \<Rightarrow> string \<Rightarrow> string \<Rightarrow> backup_table \<Rightarrow> backup_table \<times> (string + backup_result)" where
  "createBackup_try env userId type tbl =
     (let backupPath = backupDir env @ ''/'' @ backupId env in
      case mkdir_error env of
        Some msg \<Rightarrow> (tbl, Inl msg)
      | None \<Rightarrow>
      (case backupDatabase env of
        Inl msg \<Rightarrow> (tbl, Inl msg)
      | Inr dbBackupFile \<Rightarrow>
      (let uploadsBackupFile = backupUploads env;
           size = getFolderSize env in
       case writeFile_error env of
         Some msg \<Rightarrow> (tbl, Inl msg)
       | None \<Rightarrow>
       (case uploadToS3 env of
          Inl msg \<Rightarrow> (tbl, Inl msg)
        | Inr s3Location \<Rightarrow>
        (case create_completed_error env of
           Some msg \<Rightarrow> (tbl, Inl msg)
         | None \<Rightarrow>
            (let backupRecord =
                   \<lparr>rec_backupId = backupId env, rec_type = type, rec_size = Some size,
                    rec_location = Some (if truthy s3Location then the s3Location
                                         else ''local:'' @ backupPath),
                    rec_status = ''completed'', rec_createdById = userId, rec_error = None\<rparr>
             in (cleanupOldBackups env (tbl @ [backupRecord]),
                 Inr \<lparr>res_backupId = backupId env, res_backupRecord = backupRecord,
                      res_localPath = backupPath, res_s3Location = s3Location,
                      res_size = size\<rparr>)))))))"

text \<open>
  \<^verbatim>\<open>async createBackup(userId, type = 'full') {
    ...
    try { ... }
    catch (error) {
        logger.error('Backup creation failed:', error);
        // Record failed backup
        await prisma.backup.create({ data: {
            backupId, type, status: 'failed', createdById: userId, error: error.message } });
        throw error;
    } }\<close>
  When the write of the failed row rejects as well, that rejection is what leaves the
  function.
\<close>

definition createBackup ::
  "backup_env \<Rightarrow> string \<Rightarrow> string \<Rightarrow> backup_table \<Rightarrow> backup_table \<times> (string + backup_result)" where
  "createBackup env userId type tbl =
     (case createBackup_try env userId type tbl of
        (tbl', Inr result) \<Rightarrow> (tbl', Inr result)
      | (tbl', Inl msg) \<Rightarrow>
          (case create_failed_error env of
             Some msg' \<Rightarrow> (tbl', Inl msg')
           | None \<Rightarrow>
               (tbl' @ [\<lparr>rec_backupId = backupId env, rec_type = type, rec_size = None,
                         rec_location = None, rec_status = ''failed'',
                         rec_createdById = userId, rec_error = Some msg\<rparr>],
                Inl msg)))"

text \<open>
  The message of the first of the steps whose failure ends the \<open>try\<close> block: creating
  the directory, dumping the database, writing the metadata, uploading to S3, writing the
  completed row.
\<close>

definition first_fatal_error :: "backup_env \<Rightarrow> string option" where
  "first_fatal_error env =
     (case mkdir_error env of Some msg \<Rightarrow> Some msg | None \<Rightarrow>
      (case pg_dump_error env of Some msg \<Rightarrow> Some (''Database backup failed: '' @ msg) | None \<Rightarrow>
       (case writeFile_error env of Some msg \<Rightarrow> Some msg | None \<Rightarrow>
        (case (s3_bucket env, s3_upload_error env) of (Some bucket, Some msg) \<Rightarrow> Some msg | _ \<Rightarrow>
          create_completed_error env))))"

section \<open>The reminder batch: Due-Date Evaluator, Recipient Resolver, Dispatcher\<close>

text \<open>
  Modelled from the spec: the Due-Date Evaluator, the Recipient Resolver and the
  Dispatcher with its ReminderLog. Of the reminder batch the sources hold the mail service
  it calls (\<open>sendReminderEmail\<close>) and readers of the log, not the batch itself. The
  definitions of this section follow sections 3, 4.1, 4.2 and 4.3 of the specification.
\<close>








record next_of_kin =
  nok_name :: string
  nok_email :: string
  nok_primary :: bool

record member =
  member_id :: nat
  member_name :: string
  member_email :: string
  member_kin :: "next_of_kin list"

datatype outcome = Sent | Failed | Pending














section \<open>Properties of the IP gate\<close>

lemma ipToLong_dotted_quad: "ipToLong (Str ''192.168.1.5'') = Inr (Some 3232235781)"
  by code_simp

lemma isIPInRange_cidr_throws:
  "CHR ''/'' \<in> set rng \<Longrightarrow> isIPInRange a rng = Inl TypeError"
  by (simp add: isIPInRange_def ipToLong_def Let_def
           split: list.splits sum.splits option.splits js_error.splits)

text \<open>
  Claim C1. The range check is meant to decide membership by comparing the masked
  integers, so that 192.168.1.5 lies in 192.168.1.0/24 and not in 192.168.2.0/24. The
  mask comparison of the specification gives exactly these two answers. The code hands the
  numeric mask to \<open>ipToLong\<close>, which calls \<open>split\<close> on it: for both ranges the check
  throws a TypeError and answers nothing.
\<close>

theorem isIPInRange_cidr_example_throws:
  "isIPInRange (Some ''192.168.1.5'') ''192.168.1.0/24'' = Inl TypeError
   \<and> isIPInRange (Some ''192.168.1.5'') ''192.168.2.0/24'' = Inl TypeError
   \<and> cidr_match ''192.168.1.5'' ''192.168.1.0/24''
   \<and> \<not> cidr_match ''192.168.1.5'' ''192.168.2.0/24''"
  by code_simp

lemma cidrToMask_all_1_to_32:
  "\<forall>p \<in> set [1..32]. cidrToMask (Some p) = Some (leading_ones_mask (nat p))"
  by code_simp

lemma cidrToMask_1_to_32:
  "1 \<le> p \<Longrightarrow> p \<le> 32 \<Longrightarrow> cidrToMask (Some p) = Some (leading_ones_mask (nat p))"
  using cidrToMask_all_1_to_32 by simp

text \<open>
  Claim C2. For a prefix length \<open>p\<close> from 0 to 32 the mask should have exactly \<open>p\<close>
  leading one bits. It has for 1 to 32 (\<open>cidrToMask_1_to_32\<close>). At \<open>p = 0\<close> the shift
  count 32 is reduced modulo 32 to 0, and the code returns the all-ones mask 4294967295
  where the mask of /0 is 0.
\<close>

theorem cidrToMask_prefix_zero:
  "cidrToMask (Some 0) = Some 4294967295 \<and> leading_ones_mask 0 = 0"
  by code_simp

lemma any_in_range_no_cidr:
  "list_all (\<lambda>w. CHR ''/'' \<notin> set w) ws \<Longrightarrow> \<not> set_has ws a \<Longrightarrow> any_in_range a ws = Inr False"
  by (induction ws) (auto simp: isIPInRange_def set_has_def split: option.splits)

text \<open>
  Claim C3, as stated, fails in either reading. An admin path whose client address lies
  in a CIDR range of the general list, and not in the admin list, passes under the
  first-match reading; the code rejects it, since it decides admin paths before it ever
  looks at ranges. An admin path whose client address is an exact member of the general
  list, and not of the admin list, is rejected under the conjunctive reading; the code
  lets it pass.
\<close>

theorem middleware_rule_counterexample:
  "middleware \<lparr>whitelist = [''192.168.1.0/24''], adminIPs = []\<rparr>
       \<lparr>path = ''/api/admin/users'', ip = Some ''192.168.1.5'',
        x_forwarded_for = None, remoteAddress = None\<rparr>
     = Inr (Denied ''Admin access restricted to authorized IP addresses'')
   \<and> gate_rule_first_match \<lparr>whitelist = [''192.168.1.0/24''], adminIPs = []\<rparr>
       \<lparr>path = ''/api/admin/users'', ip = Some ''192.168.1.5'',
        x_forwarded_for = None, remoteAddress = None\<rparr>
   \<and> middleware \<lparr>whitelist = [''10.0.0.7''], adminIPs = []\<rparr>
       \<lparr>path = ''/api/admin/users'', ip = Some ''10.0.0.7'',
        x_forwarded_for = None, remoteAddress = None\<rparr>
     = Inr Next
   \<and> \<not> gate_rule_conjunctive \<lparr>whitelist = [''10.0.0.7''], adminIPs = []\<rparr>
       \<lparr>path = ''/api/admin/users'', ip = Some ''10.0.0.7'',
        x_forwarded_for = None, remoteAddress = None\<rparr>"
  by code_simp

text \<open>
  Claim C3, amended. The gate decides in this order: the health path and the
  authentication paths pass; then an exact member of the general list passes; then an
  admin path passes exactly when the client address is an exact member of the admin list
  and is otherwise rejected with the admin access-denied response, ranges not being
  consulted; then, for any other path, a general list without range entries leads to the
  access-denied response.
\<close>

theorem middleware_decision_order:
  "(path req = ''/health'' \<or> prefix ''/api/auth'' (path req) \<longrightarrow> middleware g req = Inr Next)
 \<and> (set_has (whitelist g) (getClientIP req) \<longrightarrow> middleware g req = Inr Next)
 \<and> (path req \<noteq> ''/health'' \<and> \<not> prefix ''/api/auth'' (path req)
      \<and> \<not> set_has (whitelist g) (getClientIP req) \<and> prefix ''/api/admin'' (path req)
     \<longrightarrow> middleware g req =
          (if set_has (adminIPs g) (getClientIP req) then Inr Next
           else Inr (Denied ''Admin access restricted to authorized IP addresses'')))
 \<and> (path req \<noteq> ''/health'' \<and> \<not> prefix ''/api/auth'' (path req)
      \<and> \<not> set_has (whitelist g) (getClientIP req) \<and> \<not> prefix ''/api/admin'' (path req)
      \<and> list_all (\<lambda>w. CHR ''/'' \<notin> set w) (whitelist g)
     \<longrightarrow> middleware g req
          = Inr (Denied ''Your IP address is not authorized to access this resource''))"
  by (simp add: middleware_def Let_def isIPAllowed_def any_in_range_no_cidr)

text \<open>
  The decision order on five requests against a general list holding 10.0.0.7 and an
  admin list holding 10.0.0.9: the health path from a foreign address, an admin path from
  each of the two listed addresses, an admin path and a member path from a foreign
  address.
\<close>

theorem middleware_decision_order_witness:
  "middleware \<lparr>whitelist = [''10.0.0.7''], adminIPs = [''10.0.0.9'']\<rparr>
      \<lparr>path = ''/health'', ip = Some ''8.8.8.8'', x_forwarded_for = None, remoteAddress = None\<rparr>
     = Inr Next
 \<and> middleware \<lparr>whitelist = [''10.0.0.7''], adminIPs = [''10.0.0.9'']\<rparr>
      \<lparr>path = ''/api/admin/users'', ip = Some ''10.0.0.7'', x_forwarded_for = None, remoteAddress = None\<rparr>
     = Inr Next
 \<and> middleware \<lparr>whitelist = [''10.0.0.7''], adminIPs = [''10.0.0.9'']\<rparr>
      \<lparr>path = ''/api/admin/users'', ip = Some ''10.0.0.9'', x_forwarded_for = None, remoteAddress = None\<rparr>
     = Inr Next
 \<and> middleware \<lparr>whitelist = [''10.0.0.7''], adminIPs = [''10.0.0.9'']\<rparr>
      \<lparr>path = ''/api/admin/users'', ip = Some ''8.8.8.8'', x_forwarded_for = None, remoteAddress = None\<rparr>
     = Inr (Denied ''Admin access restricted to authorized IP addresses'')
 \<and> middleware \<lparr>whitelist = [''10.0.0.7''], adminIPs = [''10.0.0.9'']\<rparr>
      \<lparr>path = ''/api/members'', ip = Some ''8.8.8.8'', x_forwarded_for = None, remoteAddress = None\<rparr>
     = Inr (Denied ''Your IP address is not authorized to access this resource'')"
proof -
  let ?g = "\<lparr>whitelist = [''10.0.0.7''], adminIPs = [''10.0.0.9'']\<rparr>"
  let ?r1 = "\<lparr>path = ''/health'', ip = Some ''8.8.8.8'', x_forwarded_for = None, remoteAddress = None\<rparr>"
  let ?r2 = "\<lparr>path = ''/api/admin/users'', ip = Some ''10.0.0.7'', x_forwarded_for = None, remoteAddress = None\<rparr>"
  let ?r3 = "\<lparr>path = ''/api/admin/users'', ip = Some ''10.0.0.9'', x_forwarded_for = None, remoteAddress = None\<rparr>"
  let ?r4 = "\<lparr>path = ''/api/admin/users'', ip = Some ''8.8.8.8'', x_forwarded_for = None, remoteAddress = None\<rparr>"
  let ?r5 = "\<lparr>path = ''/api/members'', ip = Some ''8.8.8.8'', x_forwarded_for = None, remoteAddress = None\<rparr>"
  have h1: "path ?r1 = ''/health'' \<or> prefix ''/api/auth'' (path ?r1)"
    by simp
  have h2: "set_has (whitelist ?g) (getClientIP ?r2)"
    by (simp add: set_has_def getClientIP_def truthy_def)
  have h3: "path ?r3 \<noteq> ''/health'' \<and> \<not> prefix ''/api/auth'' (path ?r3)
      \<and> \<not> set_has (whitelist ?g) (getClientIP ?r3) \<and> prefix ''/api/admin'' (path ?r3)"
    by (simp add: set_has_def getClientIP_def truthy_def)
  have h3': "set_has (adminIPs ?g) (getClientIP ?r3)"
    by (simp add: set_has_def getClientIP_def truthy_def)
  have h4: "path ?r4 \<noteq> ''/health'' \<and> \<not> prefix ''/api/auth'' (path ?r4)
      \<and> \<not> set_has (whitelist ?g) (getClientIP ?r4) \<and> prefix ''/api/admin'' (path ?r4)"
    by (simp add: set_has_def getClientIP_def truthy_def)
  have h4': "\<not> set_has (adminIPs ?g) (getClientIP ?r4)"
    by (simp add: set_has_def getClientIP_def truthy_def)
  have h5: "path ?r5 \<noteq> ''/health'' \<and> \<not> prefix ''/api/auth'' (path ?r5)
      \<and> \<not> set_has (whitelist ?g) (getClientIP ?r5) \<and> \<not> prefix ''/api/admin'' (path ?r5)
      \<and> list_all (\<lambda>w. CHR ''/'' \<notin> set w) (whitelist ?g)"
    by (simp add: set_has_def getClientIP_def truthy_def)
  have c1: "middleware ?g ?r1 = Inr Next"
    using middleware_decision_order [of ?r1 ?g, THEN conjunct1] h1 by (rule mp)
  have c2: "middleware ?g ?r2 = Inr Next"
    using middleware_decision_order [of ?r2 ?g, THEN conjunct2, THEN conjunct1] h2 by (rule mp)
  have c3: "middleware ?g ?r3 = Inr Next"
    using mp [OF middleware_decision_order [of ?r3 ?g, THEN conjunct2, THEN conjunct2, THEN conjunct1] h3] h3'
    by simp
  have c4: "middleware ?g ?r4 = Inr (Denied ''Admin access restricted to authorized IP addresses'')"
    using mp [OF middleware_decision_order [of ?r4 ?g, THEN conjunct2, THEN conjunct2, THEN conjunct1] h4] h4'
    by simp
  have c5: "middleware ?g ?r5 = Inr (Denied ''Your IP address is not authorized to access this resource'')"
    using middleware_decision_order [of ?r5 ?g, THEN conjunct2, THEN conjunct2, THEN conjunct2] h5 by (rule mp)
  from c1 c2 c3 c4 c5 show ?thesis by blast
qed

lemma last_add_entries_trace: "last (g # add_entries_trace g es) = foldl add_entry g es"
  by (induction es arbitrary: g) auto

lemma set_set_add: "set (set_add xs x) = insert x (set xs)"
  by (auto simp: set_add_def)

lemma distinct_set_add: "distinct xs \<Longrightarrow> distinct (set_add xs x)"
  by (auto simp: set_add_def)

lemma run_events_requests:
  "run_events g (map Request reqs @ evs)
     = (fst (run_events g evs), map (middleware g) reqs @ snd (run_events g evs))"
  by (induction reqs) (auto split: prod.splits)

lemma foldl_add_entry:
  "set (whitelist (foldl add_entry g es))
     = set (whitelist g) \<union> set (map ipAddress (filter (\<lambda>r. \<not> isAdminIP r) es))
  \<and> set (adminIPs (foldl add_entry g es))
     = set (adminIPs g) \<union> set (map ipAddress (filter isAdminIP es))
  \<and> (distinct (whitelist g) \<longrightarrow> distinct (whitelist (foldl add_entry g es)))
  \<and> (distinct (adminIPs g) \<longrightarrow> distinct (adminIPs (foldl add_entry g es)))"
  by (induction es arbitrary: g) (auto simp: add_entry_def set_set_add distinct_set_add)

text \<open>
  Claim C8, as stated, fails: the reload is no swap of a freshly built set. Reloading a
  table that holds exactly what the cache already holds ends in the same cache, but
  between the first statement and the last the live cache is the emptied one.
\<close>

theorem loadWhitelist_swap_counterexample:
  "loadWhitelist (Some [\<lparr>ipAddress = ''10.0.0.1'', isAdminIP = False, enabled = True\<rparr>])
       \<lparr>whitelist = [''10.0.0.1''], adminIPs = []\<rparr>
     = \<lparr>whitelist = [''10.0.0.1''], adminIPs = []\<rparr>
   \<and> loadWhitelist_trace (Some [\<lparr>ipAddress = ''10.0.0.1'', isAdminIP = False, enabled = True\<rparr>])
       \<lparr>whitelist = [''10.0.0.1''], adminIPs = []\<rparr>
     = [\<lparr>whitelist = [], adminIPs = []\<rparr>, \<lparr>whitelist = [], adminIPs = []\<rparr>,
        \<lparr>whitelist = [''10.0.0.1''], adminIPs = []\<rparr>]"
  by (simp add: loadWhitelist_def loadWhitelist_trace_def add_entry_def set_add_def)

text \<open>
  Claim C8, amended. The reload mutates the live sets in place, it swaps nothing in: the
  last state it writes is its result. A reader still never sees a half-updated cache. The
  clears and the adds are one synchronous block after the only \<open>await\<close>, and the readers
  are synchronous, so whatever the schedule, a request checked before the reload starts
  or while its query is pending is answered from the cache as it was, and a request
  checked after the reload has resumed from the cache as the whole block left it. When
  the query succeeds that cache is the one built from two empty sets, whatever the cache
  held before: the general set holds exactly the addresses of the enabled rows that are
  not admin rows, the admin set those of the enabled admin rows, each without duplicates.
  When the query fails the cache is untouched.
\<close>

theorem loadWhitelist_in_place:
  "loadWhitelist None g = g
 \<and> loadWhitelist_trace None g = []
 \<and> last (g # loadWhitelist_trace table g) = loadWhitelist table g
 \<and> run_events g (map Request before @ ReloadStarts # map Request during
                   @ ReloadResumes table # map Request after)
     = (loadWhitelist table g,
        map (middleware g) (before @ during) @ map (middleware (loadWhitelist table g)) after)
 \<and> loadWhitelist (Some rows) g
     = foldl add_entry \<lparr>whitelist = [], adminIPs = []\<rparr> (filter enabled rows)
 \<and> set (whitelist (loadWhitelist (Some rows) g))
     = set (map ipAddress (filter (\<lambda>r. enabled r \<and> \<not> isAdminIP r) rows))
 \<and> set (adminIPs (loadWhitelist (Some rows) g))
     = set (map ipAddress (filter (\<lambda>r. enabled r \<and> isAdminIP r) rows))
 \<and> distinct (whitelist (loadWhitelist (Some rows) g))
 \<and> distinct (adminIPs (loadWhitelist (Some rows) g))"
proof -
  let ?empty = "g\<lparr>whitelist := [], adminIPs := []\<rparr>"
  have failed: "loadWhitelist None g = g" "loadWhitelist_trace None g = []"
    by (simp_all add: loadWhitelist_def loadWhitelist_trace_def)
  have final: "last (g # loadWhitelist_trace table g) = loadWhitelist table g"
    using last_add_entries_trace [of ?empty]
    by (auto simp: loadWhitelist_def loadWhitelist_trace_def split: option.splits)
  have "run_events g (map Request before @ ReloadStarts # map Request during
                       @ ReloadResumes table # map Request after)
          = (fst (run_events g (map Request during @ ReloadResumes table # map Request after)),
             map (middleware g) before
               @ snd (run_events g (map Request during @ ReloadResumes table # map Request after)))"
    by (simp add: run_events_requests [of g before])
  moreover have "run_events g (map Request during @ ReloadResumes table # map Request after)
          = (fst (run_events (loadWhitelist table g) (map Request after)),
             map (middleware g) during
               @ snd (run_events (loadWhitelist table g) (map Request after)))"
    by (simp add: run_events_requests [of g during])
  moreover have "run_events (loadWhitelist table g) (map Request after)
          = (loadWhitelist table g, map (middleware (loadWhitelist table g)) after)"
    using run_events_requests [of "loadWhitelist table g" after "[]"] by simp
  ultimately have readers:
    "run_events g (map Request before @ ReloadStarts # map Request during
                    @ ReloadResumes table # map Request after)
       = (loadWhitelist table g,
          map (middleware g) (before @ during) @ map (middleware (loadWhitelist table g)) after)"
    by simp
  have emptied: "?empty = \<lparr>whitelist = [], adminIPs = []\<rparr>"
    by simp
  have fresh: "loadWhitelist (Some rows) g
      = foldl add_entry \<lparr>whitelist = [], adminIPs = []\<rparr> (filter enabled rows)"
    by (simp only: loadWhitelist_def option.case emptied)
  have contents:
    "set (whitelist (loadWhitelist (Some rows) g))
       = set (map ipAddress (filter (\<lambda>r. enabled r \<and> \<not> isAdminIP r) rows))"
    "set (adminIPs (loadWhitelist (Some rows) g))
       = set (map ipAddress (filter (\<lambda>r. enabled r \<and> isAdminIP r) rows))"
    "distinct (whitelist (loadWhitelist (Some rows) g))"
    "distinct (adminIPs (loadWhitelist (Some rows) g))"
    using foldl_add_entry [of ?empty "filter enabled rows"]
    by (auto simp: loadWhitelist_def)
  from failed final readers fresh contents show ?thesis
    by blast
qed

section \<open>Properties of the email service\<close>

lemma sendEmail_returns:
  "\<exists>w' result. sendEmail svc env w rcpt subj tn data = (w', Inr result) \<and> to result = rcpt
     \<and> (effects w' = effects w
         \<or> (\<exists>m. effects w' = effects w @ [SendMail m] \<and> mail_to m = rcpt))"
  by (auto simp: sendEmail_def sendEmail_try_def mailOptions_def
           split: sum.splits option.splits prod.splits)

lemma sendBulkEmails_loop_acc:
  "sendBulkEmails_loop svc env subj tn data w rs acc
     = (case sendBulkEmails_loop svc env subj tn data w rs [] of (w', res) \<Rightarrow> (w', acc @ res))"
proof (induction rs arbitrary: w acc)
  case Nil
  then show ?case by simp
next
  case (Cons r rs)
  obtain w1 result where s: "sendEmail svc env w (email r) subj tn (data ++ variables r) = (w1, Inr result)"
    using sendEmail_returns by blast
  show ?case
    using Cons.IH [of "w1\<lparr>effects := effects w1 @ [Delay 100]\<rparr>" "acc @ [result]"]
      Cons.IH [of "w1\<lparr>effects := effects w1 @ [Delay 100]\<rparr>" "[result]"]
    by (simp add: s split: prod.splits)
qed

lemma sendBulkEmails_loop_append:
  "sendBulkEmails_loop svc env subj tn data w (xs @ ys) acc
     = (case sendBulkEmails_loop svc env subj tn data w xs acc of
          (w', acc') \<Rightarrow> sendBulkEmails_loop svc env subj tn data w' ys acc')"
proof (induction xs arbitrary: w acc)
  case Nil
  then show ?case by simp
next
  case (Cons r rs)
  obtain w1 result where s: "sendEmail svc env w (email r) subj tn (data ++ variables r) = (w1, Inr result)"
    using sendEmail_returns by blast
  show ?case
    using Cons.IH by (simp add: s)
qed

lemma sendBulkEmails_loop_shape:
  "sendBulkEmails_loop svc env subj tn data w rs acc = (w', res) \<Longrightarrow>
     length res = length acc + length rs
     \<and> map to res = map to acc @ map email rs
     \<and> (\<exists>blocks. effects w' = effects w @ concat blocks \<and> list_all2 is_attempt_block rs blocks)"
proof (induction rs arbitrary: w acc)
  case Nil
  then show ?case by simp
next
  case (Cons r rs)
  obtain w1 result where s: "sendEmail svc env w (email r) subj tn (data ++ variables r) = (w1, Inr result)"
    and t: "to result = email r"
    and e: "effects w1 = effects w \<or> (\<exists>m. effects w1 = effects w @ [SendMail m] \<and> mail_to m = email r)"
    using sendEmail_returns [of svc env w "email r" subj tn "data ++ variables r"] by blast
  let ?w2 = "w1\<lparr>effects := effects w1 @ [Delay 100]\<rparr>"
  from Cons.prems s have loop: "sendBulkEmails_loop svc env subj tn data ?w2 rs (acc @ [result]) = (w', res)"
    by simp
  from Cons.IH [OF loop] obtain blocks where
    len: "length res = length (acc @ [result]) + length rs"
    and tos: "map to res = map to (acc @ [result]) @ map email rs"
    and eff: "effects w' = effects ?w2 @ concat blocks"
    and blk: "list_all2 is_attempt_block rs blocks"
    by blast
  from e obtain b where b: "effects ?w2 = effects w @ b" and ib: "is_attempt_block r b"
    by auto
  have "effects w' = effects w @ concat (b # blocks)"
    using eff b by simp
  moreover have "list_all2 is_attempt_block (r # rs) (b # blocks)"
    using ib blk by simp
  ultimately have "\<exists>blocks. effects w' = effects w @ concat blocks \<and> list_all2 is_attempt_block (r # rs) blocks"
    by blast
  with len tos t show ?case by simp
qed

lemma length_filter_split: "length (filter P xs) + length (filter (\<lambda>x. \<not> P x) xs) = length xs"
  by (induction xs) auto

text \<open>
  Claim C4. A failure of the transport while sending to one recipient is caught and
  recorded as that recipient's failed outcome, and the recipients after it are still
  served. Whatever the recipients before \<open>r\<close> led to, if the transport rejects the mail
  for \<open>r\<close> with error \<open>e\<close>, the bulk send over the whole list returns normally: its
  results are those of the recipients before, then the failed outcome of \<open>r\<close> carrying
  \<open>e\<close>, then those of a bulk send over the recipients after \<open>r\<close>, and \<open>r\<close> counts
  once in \<open>failed\<close>.
\<close>

theorem sendBulkEmails_failure_isolated:
  assumes "transporter svc = Some sendMail"
    and "render svc env tn (data ++ variables r) = Inr html"
    and "sendBulkEmails svc env w before subj tn data = (w0, s0)"
    and "sendMail (transport_state w0) (mailOptions svc env (email r) subj html) = (ts, Inl e)"
    and "sendBulkEmails svc env
           (w0\<lparr>transport_state := ts,
               effects := effects w0 @ [SendMail (mailOptions svc env (email r) subj html), Delay 100]\<rparr>)
           after subj tn data = (w2, s2)"
  shows "sendBulkEmails svc env w (before @ r # after) subj tn data =
           (w2, \<lparr>total = total s0 + 1 + total s2,
                 sent = sent s0 + sent s2,
                 failed = failed s0 + 1 + failed s2,
                 results = results s0
                   @ [\<lparr>success = False, messageId = None, error = Some e,
                        to = email r, subject = Some subj\<rparr>]
                   @ results s2\<rparr>)"
proof -
  obtain res0 where l0: "sendBulkEmails_loop svc env subj tn data w before [] = (w0, res0)"
    and s0: "s0 = \<lparr>total = length before, sent = length (filter success res0),
                   failed = length (filter (\<lambda>r. \<not> success r) res0), results = res0\<rparr>"
    using assms(3) by (auto simp: sendBulkEmails_def split: prod.splits)
  let ?w1 = "w0\<lparr>transport_state := ts,
               effects := effects w0 @ [SendMail (mailOptions svc env (email r) subj html), Delay 100]\<rparr>"
  let ?fail = "\<lparr>success = False, messageId = None, error = Some e, to = email r, subject = Some subj\<rparr>"
  obtain res2 where l2: "sendBulkEmails_loop svc env subj tn data ?w1 after [] = (w2, res2)"
    and s2: "s2 = \<lparr>total = length after, sent = length (filter success res2),
                   failed = length (filter (\<lambda>r. \<not> success r) res2), results = res2\<rparr>"
    using assms(5) by (auto simp: sendBulkEmails_def split: prod.splits)
  have one: "sendEmail svc env w0 (email r) subj tn (data ++ variables r) = (w0\<lparr>transport_state := ts,
               effects := effects w0 @ [SendMail (mailOptions svc env (email r) subj html)]\<rparr>, Inr ?fail)"
    using assms(1,2,4) by (simp add: sendEmail_def sendEmail_try_def)
  have "sendBulkEmails_loop svc env subj tn data w (before @ r # after) []
          = sendBulkEmails_loop svc env subj tn data w0 (r # after) res0"
    by (simp add: sendBulkEmails_loop_append l0)
  also have "\<dots> = sendBulkEmails_loop svc env subj tn data ?w1 after (res0 @ [?fail])"
    by (simp add: one)
  also have "\<dots> = (w2, (res0 @ [?fail]) @ res2)"
    using sendBulkEmails_loop_acc [of svc env subj tn data ?w1 after "res0 @ [?fail]"] l2 by simp
  finally show ?thesis
    by (simp add: sendBulkEmails_def s0 s2)
qed

text \<open>
  Three recipients and a transport that rejects the second address: the summary counts
  two sent and one failed, and the third recipient is served after the failure.
\<close>

theorem sendBulkEmails_failure_isolated_witness:
  "snd (sendBulkEmails
          \<lparr>transporter = Some (\<lambda>ts m. if mail_to m = ''bad@example.org''
                                      then (Suc ts, Inl (Message ''550 mailbox unavailable''))
                                      else (Suc ts, Inr ''id-1'')),
           templates = [''welcome'' \<mapsto> (\<lambda>ctx. Inr ''<p>Hello</p>'')],
           htmlToText = (\<lambda>h. ''Hello'')\<rparr>
          \<lparr>year = ''2025'', FRONTEND_URL = None, SMTP_FROM = None, SMTP_USER = Some ''psn@example.org''\<rparr>
          \<lparr>transport_state = 0, effects = []\<rparr>
          ([\<lparr>email = ''a@example.org'', variables = Map.empty\<rparr>]
            @ \<lparr>email = ''bad@example.org'', variables = Map.empty\<rparr>
            # [\<lparr>email = ''c@example.org'', variables = Map.empty\<rparr>])
          ''Hi'' ''welcome'' Map.empty)
     = \<lparr>total = 3, sent = 2, failed = 1,
        results =
          [\<lparr>success = True, messageId = Some ''id-1'', error = None,
            to = ''a@example.org'', subject = Some ''Hi''\<rparr>,
           \<lparr>success = False, messageId = None, error = Some (Message ''550 mailbox unavailable''),
            to = ''bad@example.org'', subject = Some ''Hi''\<rparr>,
           \<lparr>success = True, messageId = Some ''id-1'', error = None,
            to = ''c@example.org'', subject = Some ''Hi''\<rparr>]\<rparr>"
proof -
  let ?tr = "\<lambda>(ts::nat) m. if mail_to m = ''bad@example.org''
                         then (Suc ts, Inl (Message ''550 mailbox unavailable''))
                         else (Suc ts, Inr ''id-1'')"
  let ?svc = "\<lparr>transporter = Some ?tr,
               templates = [''welcome'' \<mapsto> (\<lambda>ctx. Inr ''<p>Hello</p>'')],
               htmlToText = (\<lambda>h. ''Hello'')\<rparr>"
  let ?env = "\<lparr>year = ''2025'', FRONTEND_URL = None, SMTP_FROM = None,
               SMTP_USER = Some ''psn@example.org''\<rparr>"
  let ?a = "\<lparr>email = ''a@example.org'', variables = Map.empty\<rparr>"
  let ?b = "\<lparr>email = ''bad@example.org'', variables = Map.empty\<rparr>"
  let ?c = "\<lparr>email = ''c@example.org'', variables = Map.empty\<rparr>"
  let ?ma = "mailOptions ?svc ?env ''a@example.org'' ''Hi'' ''<p>Hello</p>''"
  let ?mb = "mailOptions ?svc ?env ''bad@example.org'' ''Hi'' ''<p>Hello</p>''"
  let ?mc = "mailOptions ?svc ?env ''c@example.org'' ''Hi'' ''<p>Hello</p>''"
  let ?wi = "\<lparr>transport_state = 0::nat, effects = []\<rparr>"
  let ?wa = "\<lparr>transport_state = Suc 0, effects = [SendMail ?ma, Delay 100]\<rparr>"
  let ?sa = "\<lparr>total = 1, sent = 1, failed = 0,
              results = [\<lparr>success = True, messageId = Some ''id-1'', error = None,
                          to = ''a@example.org'', subject = Some ''Hi''\<rparr>]\<rparr>"
  let ?wb = "?wa\<lparr>transport_state := Suc (Suc 0),
                  effects := effects ?wa @ [SendMail (mailOptions ?svc ?env (email ?b) ''Hi'' ''<p>Hello</p>''), Delay 100]\<rparr>"
  let ?wc = "\<lparr>transport_state = Suc (Suc (Suc 0)),
               effects = [SendMail ?ma, Delay 100, SendMail ?mb, Delay 100, SendMail ?mc, Delay 100]\<rparr>"
  let ?sc = "\<lparr>total = 1, sent = 1, failed = 0,
              results = [\<lparr>success = True, messageId = Some ''id-1'', error = None,
                          to = ''c@example.org'', subject = Some ''Hi''\<rparr>]\<rparr>"
  have a1: "transporter ?svc = Some ?tr"
    by simp
  have a2: "render ?svc ?env ''welcome'' (Map.empty ++ variables ?b) = Inr ''<p>Hello</p>''"
    by (simp add: render_def)
  have a3: "sendBulkEmails ?svc ?env ?wi [?a] ''Hi'' ''welcome'' Map.empty = (?wa, ?sa)"
    by (simp add: sendBulkEmails_def sendEmail_def sendEmail_try_def render_def mailOptions_def truthy_def)
  have a4: "?tr (transport_state ?wa) (mailOptions ?svc ?env (email ?b) ''Hi'' ''<p>Hello</p>'')
              = (Suc (Suc 0), Inl (Message ''550 mailbox unavailable''))"
    by (simp add: mailOptions_def)
  have a5: "sendBulkEmails ?svc ?env ?wb [?c] ''Hi'' ''welcome'' Map.empty = (?wc, ?sc)"
    by (simp add: sendBulkEmails_def sendEmail_def sendEmail_try_def render_def mailOptions_def truthy_def)
  from sendBulkEmails_failure_isolated [OF a1 a2 a3 a4 a5] show ?thesis
    by simp
qed

lemma sendEmail_transport:
  assumes "transporter svc = Some sendMail"
    and "render svc env tn data = Inr html"
    and "sendMail (transport_state w) (mailOptions svc env rcpt subj html) = (ts, a)"
  shows "sendEmail svc env w rcpt subj tn data
           = (w\<lparr>transport_state := ts,
                effects := effects w @ [SendMail (mailOptions svc env rcpt subj html)]\<rparr>,
              Inr (send_result_of rcpt subj a))"
  using assms by (cases a) (simp_all add: sendEmail_def sendEmail_try_def send_result_of_def)

lemma sendBulkEmails_loop_transport:
  assumes "transporter svc = Some sendMail"
  shows "map (\<lambda>r. render svc env tn (data ++ variables r)) rs = map Inr htmls \<Longrightarrow>
     transport_run sendMail (transport_state w)
         (map2 (\<lambda>r html. mailOptions svc env (email r) subj html) rs htmls) = (ts, answers) \<Longrightarrow>
     sendBulkEmails_loop svc env subj tn data w rs acc
       = (w\<lparr>transport_state := ts,
            effects := effects w
              @ concat (map (\<lambda>m. [SendMail m, Delay 100])
                          (map2 (\<lambda>r html. mailOptions svc env (email r) subj html) rs htmls))\<rparr>,
          acc @ map2 (\<lambda>r a. send_result_of (email r) subj a) rs answers)"
proof (induction rs arbitrary: w htmls ts answers acc)
  case Nil
  then show ?case by simp
next
  case (Cons r rs)
  from Cons.prems(1) obtain h hs where htmls: "htmls = h # hs"
    and h: "render svc env tn (data ++ variables r) = Inr h"
    and hs: "map (\<lambda>r. render svc env tn (data ++ variables r)) rs = map Inr hs"
    by (cases htmls) auto
  let ?m = "mailOptions svc env (email r) subj h"
  let ?ms = "map2 (\<lambda>r html. mailOptions svc env (email r) subj html) rs hs"
  obtain ts1 a where call: "sendMail (transport_state w) ?m = (ts1, a)"
    by (cases "sendMail (transport_state w) ?m") auto
  obtain ts2 as where rest: "transport_run sendMail ts1 ?ms = (ts2, as)"
    by (cases "transport_run sendMail ts1 ?ms") auto
  from Cons.prems(2) call rest have ts: "ts = ts2" and answers: "answers = a # as"
    by (simp_all add: htmls)
  let ?wa = "w\<lparr>transport_state := ts1, effects := effects w @ [SendMail ?m]\<rparr>"
  let ?wb = "?wa\<lparr>effects := effects ?wa @ [Delay 100]\<rparr>"
  have one: "sendEmail svc env w (email r) subj tn (data ++ variables r)
               = (?wa, Inr (send_result_of (email r) subj a))"
    by (rule sendEmail_transport [OF assms h call])
  have "transport_run sendMail (transport_state ?wb) ?ms = (ts2, as)"
    using rest by simp
  from Cons.IH [OF hs this, of "acc @ [send_result_of (email r) subj a]"]
  show ?case
    by (simp add: one htmls ts answers)
qed

lemma length_filter_send_result_of:
  "length rs = length answers \<Longrightarrow>
     length (filter success (map2 (\<lambda>r a. send_result_of (email r) subj a) rs answers))
       = length (filter (\<lambda>a. \<not> isl a) answers)
   \<and> length (filter (\<lambda>r. \<not> success r) (map2 (\<lambda>r a. send_result_of (email r) subj a) rs answers))
       = length (filter isl answers)"
proof (induction rs answers rule: list_induct2)
  case Nil
  then show ?case by simp
next
  case (Cons r rs a as)
  then show ?case
    by (cases a) (simp_all add: send_result_of_def)
qed

lemma length_transport_run: "transport_run sendMail ts ms = (ts', answers) \<Longrightarrow> length answers = length ms"
  by (induction ms arbitrary: ts ts' answers) (auto split: prod.splits)

text \<open>
  Claim C5. The bulk dispatcher serves the recipients one after the other in input order.
  For every list of recipients the summary counts every recipient, holds one result per
  recipient in input order, and \<open>sent + failed = total\<close>; the effects it adds are one block
  per recipient, in input order, each ending with the 100 millisecond timer and holding
  at most one call of the transport, addressed to that recipient. With a transport
  configured and a template that renders for every recipient, the effects are exactly one
  call of \<open>sendMail\<close> with that recipient's mail and then the timer, recipient after
  recipient in input order, each call made in the state of the transport that the call
  before it left, and the result of a recipient is the answer of the transport to that
  call: success with the message id when it resolves, failure with the error's message
  when it rejects.
\<close>

theorem sendBulkEmails_sequential:
  "(\<exists>w' s blocks. sendBulkEmails svc env w recipients subj tn data = (w', s)
       \<and> total s = length recipients
       \<and> length (results s) = length recipients
       \<and> map to (results s) = map email recipients
       \<and> sent s + failed s = total s
       \<and> effects w' = effects w @ concat blocks
       \<and> list_all2 is_attempt_block recipients blocks)
   \<and> (transporter svc = Some sendMail
       \<and> map (\<lambda>r. render svc env tn (data ++ variables r)) recipients = map Inr htmls
       \<and> transport_run sendMail (transport_state w)
            (map2 (\<lambda>r html. mailOptions svc env (email r) subj html) recipients htmls)
           = (ts, answers)
       \<longrightarrow> sendBulkEmails svc env w recipients subj tn data
           = (w\<lparr>transport_state := ts,
                effects := effects w
                  @ concat (map (\<lambda>m. [SendMail m, Delay 100])
                      (map2 (\<lambda>r html. mailOptions svc env (email r) subj html) recipients htmls))\<rparr>,
              \<lparr>total = length recipients,
               sent = length (filter (\<lambda>a. \<not> isl a) answers),
               failed = length (filter isl answers),
               results = map2 (\<lambda>r a. send_result_of (email r) subj a) recipients answers\<rparr>))"
proof -
  obtain w' res where l: "sendBulkEmails_loop svc env subj tn data w recipients [] = (w', res)"
    by (cases "sendBulkEmails_loop svc env subj tn data w recipients []") auto
  from sendBulkEmails_loop_shape [OF l] obtain blocks where
    "length res = length recipients" "map to res = map email recipients"
    "effects w' = effects w @ concat blocks" "list_all2 is_attempt_block recipients blocks"
    by auto
  then have "sendBulkEmails svc env w recipients subj tn data
        = (w', \<lparr>total = length recipients, sent = length (filter success res),
                failed = length (filter (\<lambda>r. \<not> success r) res), results = res\<rparr>)
     \<and> length res = length recipients
     \<and> map to res = map email recipients
     \<and> length (filter success res) + length (filter (\<lambda>r. \<not> success r) res) = length recipients
     \<and> effects w' = effects w @ concat blocks
     \<and> list_all2 is_attempt_block recipients blocks"
    using length_filter_split [of success res] by (simp add: sendBulkEmails_def l)
  then have summary: "\<exists>w' s blocks. sendBulkEmails svc env w recipients subj tn data = (w', s)
       \<and> total s = length recipients
       \<and> length (results s) = length recipients
       \<and> map to (results s) = map email recipients
       \<and> sent s + failed s = total s
       \<and> effects w' = effects w @ concat blocks
       \<and> list_all2 is_attempt_block recipients blocks"
    by (intro exI [of _ w'] exI [of _ blocks]
          exI [of _ "\<lparr>total = length recipients, sent = length (filter success res),
                failed = length (filter (\<lambda>r. \<not> success r) res), results = res\<rparr>"]) simp
  have exact: "sendBulkEmails svc env w recipients subj tn data
           = (w\<lparr>transport_state := ts,
                effects := effects w
                  @ concat (map (\<lambda>m. [SendMail m, Delay 100])
                      (map2 (\<lambda>r html. mailOptions svc env (email r) subj html) recipients htmls))\<rparr>,
              \<lparr>total = length recipients,
               sent = length (filter (\<lambda>a. \<not> isl a) answers),
               failed = length (filter isl answers),
               results = map2 (\<lambda>r a. send_result_of (email r) subj a) recipients answers\<rparr>)"
    if tr: "transporter svc = Some sendMail"
      and htmls: "map (\<lambda>r. render svc env tn (data ++ variables r)) recipients = map Inr htmls"
      and run: "transport_run sendMail (transport_state w)
            (map2 (\<lambda>r html. mailOptions svc env (email r) subj html) recipients htmls)
           = (ts, answers)"
  proof -
    from htmls have "length recipients = length htmls"
      using length_map [of "\<lambda>r. render svc env tn (data ++ variables r)" recipients]
        length_map [of Inr htmls] by simp
    with length_transport_run [OF run] have len: "length recipients = length answers"
      by simp
    note loop = sendBulkEmails_loop_transport [OF tr htmls run, of "[]"]
    show ?thesis
      using length_filter_send_result_of [OF len, of subj]
      by (simp add: sendBulkEmails_def loop)
  qed
  from summary exact show ?thesis
    by blast
qed

text \<open>
  Three recipients and a transport that numbers its calls and rejects the second address:
  three calls in input order, each followed by the timer, the transport left after its
  third call, two sent and one failed.
\<close>

theorem sendBulkEmails_sequential_witness:
  "sendBulkEmails
      \<lparr>transporter = Some (\<lambda>ts m. if mail_to m = ''bad@example.org''
                                  then (Suc ts, Inl (Message ''550 mailbox unavailable''))
                                  else (Suc ts, Inr (''id-'' @ replicate ts CHR ''i''))),
       templates = [''welcome'' \<mapsto> (\<lambda>ctx. Inr ''<p>Hello</p>'')],
       htmlToText = (\<lambda>h. ''Hello'')\<rparr>
      \<lparr>year = ''2025'', FRONTEND_URL = None, SMTP_FROM = None, SMTP_USER = Some ''psn@example.org''\<rparr>
      \<lparr>transport_state = 0, effects = []\<rparr>
      [\<lparr>email = ''a@example.org'', variables = Map.empty\<rparr>,
       \<lparr>email = ''bad@example.org'', variables = Map.empty\<rparr>,
       \<lparr>email = ''c@example.org'', variables = Map.empty\<rparr>]
      ''Hi'' ''welcome'' Map.empty
     = (\<lparr>transport_state = 3,
         effects = concat (map (\<lambda>a. [SendMail \<lparr>mail_from = ''\"PSN Taraba Welfare\" <psn@example.org>'',
                                               mail_to = a, mail_subject = ''Hi'',
                                               mail_html = ''<p>Hello</p>'', mail_text = ''Hello''\<rparr>,
                                     Delay 100])
                     [''a@example.org'', ''bad@example.org'', ''c@example.org''])\<rparr>,
        \<lparr>total = 3, sent = 2, failed = 1,
         results =
           [\<lparr>success = True, messageId = Some ''id-'', error = None,
             to = ''a@example.org'', subject = Some ''Hi''\<rparr>,
            \<lparr>success = False, messageId = None, error = Some (Message ''550 mailbox unavailable''),
             to = ''bad@example.org'', subject = Some ''Hi''\<rparr>,
            \<lparr>success = True, messageId = Some ''id-ii'', error = None,
             to = ''c@example.org'', subject = Some ''Hi''\<rparr>]\<rparr>)"
proof -
  let ?tr = "\<lambda>(ts::nat) m. if mail_to m = ''bad@example.org''
                         then (Suc ts, Inl (Message ''550 mailbox unavailable''))
                         else (Suc ts, Inr (''id-'' @ replicate ts CHR ''i''))"
  let ?svc = "\<lparr>transporter = Some ?tr,
               templates = [''welcome'' \<mapsto> (\<lambda>ctx. Inr ''<p>Hello</p>'')],
               htmlToText = (\<lambda>h. ''Hello'')\<rparr>"
  let ?env = "\<lparr>year = ''2025'', FRONTEND_URL = None, SMTP_FROM = None,
               SMTP_USER = Some ''psn@example.org''\<rparr>"
  let ?rs = "[\<lparr>email = ''a@example.org'', variables = Map.empty\<rparr>,
              \<lparr>email = ''bad@example.org'', variables = Map.empty\<rparr>,
              \<lparr>email = ''c@example.org'', variables = Map.empty\<rparr>]"
  let ?htmls = "[''<p>Hello</p>'', ''<p>Hello</p>'', ''<p>Hello</p>'']"
  let ?answers = "[Inr ''id-'', Inl (Message ''550 mailbox unavailable''), Inr ''id-ii'']"
  let ?wi = "\<lparr>transport_state = 0::nat, effects = []\<rparr>"
  have tr: "transporter ?svc = Some ?tr"
    by simp
  have htmls: "map (\<lambda>r. render ?svc ?env ''welcome'' (Map.empty ++ variables r)) ?rs = map Inr ?htmls"
    by (simp add: render_def)
  have run: "transport_run ?tr (transport_state ?wi)
               (map2 (\<lambda>r html. mailOptions ?svc ?env (email r) ''Hi'' html) ?rs ?htmls)
             = (3, ?answers)"
    by (simp add: mailOptions_def numeral_3_eq_3)
  from sendBulkEmails_sequential [of ?svc ?env ?wi ?rs "''Hi''" "''welcome''" Map.empty ?tr ?htmls 3 ?answers]
    tr htmls run
  have "sendBulkEmails ?svc ?env ?wi ?rs ''Hi'' ''welcome'' Map.empty
           = (?wi\<lparr>transport_state := 3,
                effects := effects ?wi
                  @ concat (map (\<lambda>m. [SendMail m, Delay 100])
                      (map2 (\<lambda>r html. mailOptions ?svc ?env (email r) ''Hi'' html) ?rs ?htmls))\<rparr>,
              \<lparr>total = length ?rs,
               sent = length (filter (\<lambda>a. \<not> isl a) ?answers),
               failed = length (filter isl ?answers),
               results = map2 (\<lambda>r a. send_result_of (email r) ''Hi'' a) ?rs ?answers\<rparr>)"
    by blast
  then show ?thesis
    by (simp add: mailOptions_def truthy_def send_result_of_def)
qed

text \<open>
  Claim C6, as stated, fails. With no template loaded, \<open>sendEmail\<close> for the template name
  \<open>missing\<close> raises nothing to its caller: it returns an object with \<open>success: false\<close>.
  For the name \<open>toString\<close>, which no loaded template has either, it finds the method
  inherited from \<open>Object.prototype\<close>, sends \<open>[object Undefined]\<close> as the mail and
  reports success.
\<close>

theorem sendEmail_unknown_template_counterexample:
  "sendEmail \<lparr>transporter = Some (\<lambda>ts m. (ts, Inr ''id-1'')), templates = Map.empty, htmlToText = (\<lambda>h. h)\<rparr>
       \<lparr>year = ''2025'', FRONTEND_URL = None, SMTP_FROM = None, SMTP_USER = Some ''psn@example.org''\<rparr>
       \<lparr>transport_state = (), effects = []\<rparr> ''member@example.org'' ''Welcome'' ''missing'' Map.empty
     = (\<lparr>transport_state = (), effects = []\<rparr>,
        Inr \<lparr>success = False, messageId = None,
             error = Some (Message ''Template \"missing\" not found''),
             to = ''member@example.org'', subject = Some ''Welcome''\<rparr>)
   \<and> snd (sendEmail \<lparr>transporter = Some (\<lambda>ts m. (ts, Inr ''id-1'')), templates = Map.empty, htmlToText = (\<lambda>h. h)\<rparr>
       \<lparr>year = ''2025'', FRONTEND_URL = None, SMTP_FROM = None, SMTP_USER = Some ''psn@example.org''\<rparr>
       \<lparr>transport_state = (), effects = []\<rparr> ''member@example.org'' ''Welcome'' ''toString'' Map.empty)
     = Inr \<lparr>success = True, messageId = Some ''id-1'', error = None,
            to = ''member@example.org'', subject = Some ''Welcome''\<rparr>"
  by (simp add: sendEmail_def sendEmail_try_def render_def object_prototype_names_def)

text \<open>
  Claim C6, amended. For a template name that is neither loaded nor the name of a member
  of \<open>Object.prototype\<close>, \<open>sendEmail\<close> does not throw and does not reach the transport:
  it returns the failed outcome whose error is \<open>Template "<name>" not found\<close>.
\<close>

theorem sendEmail_unknown_template:
  assumes "templates svc templateName = None"
    and "templateName \<notin> set object_prototype_names"
  shows "sendEmail svc env w rcpt subj templateName data
           = (w, Inr \<lparr>success = False, messageId = None,
                      error = Some (Message (''Template \"'' @ templateName @ ''\" not found'')),
                      to = rcpt, subject = Some subj\<rparr>)"
  using assms by (auto simp: sendEmail_def sendEmail_try_def render_def object_prototype_names_def)

text \<open>
  With only the template \<open>welcome\<close> loaded, sending with the template name
  \<open>reminder\<close> leaves the world as it was and returns the failed outcome.
\<close>

theorem sendEmail_unknown_template_witness:
  "sendEmail \<lparr>transporter = Some (\<lambda>ts m. (ts, Inr ''id-1'')),
              templates = [''welcome'' \<mapsto> (\<lambda>ctx. Inr ''<p>Hello</p>'')],
              htmlToText = (\<lambda>h. h)\<rparr>
       \<lparr>year = ''2025'', FRONTEND_URL = None, SMTP_FROM = None, SMTP_USER = Some ''psn@example.org''\<rparr>
       \<lparr>transport_state = (), effects = []\<rparr> ''member@example.org'' ''Welcome'' ''reminder'' Map.empty
     = (\<lparr>transport_state = (), effects = []\<rparr>,
        Inr \<lparr>success = False, messageId = None,
             error = Some (Message ''Template \"reminder\" not found''),
             to = ''member@example.org'', subject = Some ''Welcome''\<rparr>)"
proof -
  let ?svc = "\<lparr>transporter = Some (\<lambda>(ts::unit) (m::mail). (ts, Inr ''id-1'' :: message + string)),
               templates = [''welcome'' \<mapsto> (\<lambda>ctx. Inr ''<p>Hello</p>'')],
               htmlToText = (\<lambda>h. h)\<rparr>"
  have h1: "templates ?svc ''reminder'' = None"
    by simp
  have h2: "''reminder'' \<notin> set object_prototype_names"
    by (simp add: object_prototype_names_def)
  from sendEmail_unknown_template [OF h1 h2] show ?thesis
    by simp
qed


section \<open>Properties of the dashboard\<close>














section \<open>Properties of the backup service\<close>

lemma cleanupOldBackups_keeps_newest:
  "\<exists>old. cleanupOldBackups env (tbl @ [r]) = old @ [r] \<and> suffix old tbl"
proof (cases "cleanup_query_error env = None \<and> length (tbl @ [r]) > 30")
  case True
  then have "cleanupOldBackups env (tbl @ [r]) = drop (length tbl - 29) tbl @ [r]"
    by (simp add: cleanupOldBackups_def)
  moreover have "suffix (drop (length tbl - 29) tbl) tbl"
    by (rule suffix_drop)
  ultimately show ?thesis by blast
next
  case False
  then have "cleanupOldBackups env (tbl @ [r]) = tbl @ [r]"
    by (auto simp: cleanupOldBackups_def split: option.splits)
  then show ?thesis by auto
qed

lemma createBackup_try_ok:
  assumes "first_fatal_error env = None"
  shows "createBackup_try env userId type tbl =
           (cleanupOldBackups env
              (tbl @ [\<lparr>rec_backupId = backupId env, rec_type = type,
                        rec_size = Some (getFolderSize env),
                        rec_location = Some (case s3_bucket env of
                                               None \<Rightarrow> ''local:'' @ backupDir env @ ''/'' @ backupId env
                                             | Some bucket \<Rightarrow> ''s3://'' @ bucket @ ''/backups/'' @ backupId env),
                        rec_status = ''completed'', rec_createdById = userId, rec_error = None\<rparr>]),
            Inr \<lparr>res_backupId = backupId env,
                 res_backupRecord =
                   \<lparr>rec_backupId = backupId env, rec_type = type,
                    rec_size = Some (getFolderSize env),
                    rec_location = Some (case s3_bucket env of
                                           None \<Rightarrow> ''local:'' @ backupDir env @ ''/'' @ backupId env
                                         | Some bucket \<Rightarrow> ''s3://'' @ bucket @ ''/backups/'' @ backupId env),
                    rec_status = ''completed'', rec_createdById = userId, rec_error = None\<rparr>,
                 res_localPath = backupDir env @ ''/'' @ backupId env,
                 res_s3Location = (case s3_bucket env of
                                     None \<Rightarrow> None
                                   | Some bucket \<Rightarrow> Some (''s3://'' @ bucket @ ''/backups/'' @ backupId env)),
                 res_size = getFolderSize env\<rparr>)"
  using assms
  by (auto simp: createBackup_try_def first_fatal_error_def backupDatabase_def uploadToS3_def
        truthy_def Let_def split: option.splits)

lemma createBackup_try_fatal:
  assumes "first_fatal_error env = Some msg"
  shows "createBackup_try env userId type tbl = (tbl, Inl msg)"
  using assms
  by (auto simp: createBackup_try_def first_fatal_error_def backupDatabase_def uploadToS3_def
        Let_def split: option.splits)

text \<open>
  Claim C10, as stated, fails twice. When only the archive of uploads fails (step 2), the
  run still writes a completed row and returns success. When the database dump fails and
  the database then rejects the write of the failed row, no row is persisted at all.
\<close>

theorem createBackup_record_counterexample:
  "map rec_status (fst (createBackup
       \<lparr>backupId = ''backup-2025-01-01T00-00-00-000Z'', backupDir = ''/app/backups'',
        mkdir_error = None, database_file = ''database.sql'', pg_dump_error = None,
        uploads_file = ''uploads.tar.gz'', tar_error = Some ''Command failed: tar'',
        uploads_file_exists = False, du_stdout = Some ''4096'', writeFile_error = None,
        s3_bucket = None, s3_upload_error = None, create_completed_error = None,
        create_failed_error = None, cleanup_query_error = None\<rparr>
       ''admin-1'' ''full'' [])) = [''completed'']
   \<and> createBackup
       \<lparr>backupId = ''backup-2025-01-01T00-00-00-000Z'', backupDir = ''/app/backups'',
        mkdir_error = None, database_file = ''database.sql'',
        pg_dump_error = Some ''connection refused'',
        uploads_file = ''uploads.tar.gz'', tar_error = None,
        uploads_file_exists = True, du_stdout = Some ''4096'', writeFile_error = None,
        s3_bucket = None, s3_upload_error = None, create_completed_error = None,
        create_failed_error = Some ''Cannot reach database server'', cleanup_query_error = None\<rparr>
       ''admin-1'' ''full'' [] = ([], Inl ''Cannot reach database server'')"
  by (simp add: createBackup_def createBackup_try_def backupDatabase_def backupUploads_def
        uploadToS3_def cleanupOldBackups_def truthy_def Let_def)

text \<open>
  Claim C10, amended. The fatal steps are creating the directory, dumping the database,
  writing the metadata, uploading to S3 when it is configured, and writing the completed
  row; a failure of the uploads archive, of the size measurement or of the cleanup is
  absorbed. When no fatal step fails, exactly one row is added, the newest of the table
  after cleanup, with status completed, a location and the measured size, and the run
  returns success with that row. When a fatal step fails and the table accepts the failed
  row, exactly one row is added, with status failed and the error's message, and that
  error is rethrown. A run in which a fatal step fails never returns success: an error
  leaves the function.
\<close>

theorem createBackup_records:
  "(first_fatal_error env = None \<longrightarrow>
      (\<exists>old r res. createBackup env userId type tbl = (old @ [r], Inr res) \<and> suffix old tbl
          \<and> res_backupRecord res = r \<and> rec_backupId r = backupId env
          \<and> rec_status r = ''completed'' \<and> rec_location r \<noteq> None
          \<and> rec_size r = Some (getFolderSize env) \<and> rec_error r = None))
   \<and> (\<forall>msg. first_fatal_error env = Some msg \<and> create_failed_error env = None \<longrightarrow>
        createBackup env userId type tbl =
          (tbl @ [\<lparr>rec_backupId = backupId env, rec_type = type, rec_size = None,
                    rec_location = None, rec_status = ''failed'',
                    rec_createdById = userId, rec_error = Some msg\<rparr>],
           Inl msg))
   \<and> (\<forall>msg. first_fatal_error env = Some msg \<longrightarrow>
        (\<exists>e. snd (createBackup env userId type tbl) = Inl e))"
proof (intro conjI impI allI)
  assume ok: "first_fatal_error env = None"
  let ?r = "\<lparr>rec_backupId = backupId env, rec_type = type,
                        rec_size = Some (getFolderSize env),
                        rec_location = Some (case s3_bucket env of
                                               None \<Rightarrow> ''local:'' @ backupDir env @ ''/'' @ backupId env
                                             | Some bucket \<Rightarrow> ''s3://'' @ bucket @ ''/backups/'' @ backupId env),
                        rec_status = ''completed'', rec_createdById = userId, rec_error = None\<rparr>"
  obtain old where old: "cleanupOldBackups env (tbl @ [?r]) = old @ [?r]" "suffix old tbl"
    using cleanupOldBackups_keeps_newest by blast
  show "\<exists>old r res. createBackup env userId type tbl = (old @ [r], Inr res) \<and> suffix old tbl
          \<and> res_backupRecord res = r \<and> rec_backupId r = backupId env
          \<and> rec_status r = ''completed'' \<and> rec_location r \<noteq> None
          \<and> rec_size r = Some (getFolderSize env) \<and> rec_error r = None"
    using old by (simp add: createBackup_def createBackup_try_ok [OF ok])
next
  fix msg
  assume "first_fatal_error env = Some msg \<and> create_failed_error env = None"
  then show "createBackup env userId type tbl =
          (tbl @ [\<lparr>rec_backupId = backupId env, rec_type = type, rec_size = None,
                    rec_location = None, rec_status = ''failed'',
                    rec_createdById = userId, rec_error = Some msg\<rparr>],
           Inl msg)"
    by (simp add: createBackup_def createBackup_try_fatal)
next
  fix msg
  assume "first_fatal_error env = Some msg"
  then show "\<exists>e. snd (createBackup env userId type tbl) = Inl e"
    by (simp add: createBackup_def createBackup_try_fatal split: option.splits)
qed

text \<open>
  Three runs on an empty table: every step succeeds; the database dump fails; the dump
  fails and the table rejects the failed row.
\<close>

theorem createBackup_records_witness:
  "rec_status (last (fst (createBackup
       \<lparr>backupId = ''backup-2025-01-01T00-00-00-000Z'', backupDir = ''/app/backups'',
        mkdir_error = None, database_file = ''database.sql'', pg_dump_error = None,
        uploads_file = ''uploads.tar.gz'', tar_error = None,
        uploads_file_exists = True, du_stdout = Some ''4096'', writeFile_error = None,
        s3_bucket = None, s3_upload_error = None, create_completed_error = None,
        create_failed_error = None, cleanup_query_error = None\<rparr>
       ''admin-1'' ''full'' []))) = ''completed''
   \<and> createBackup
       \<lparr>backupId = ''backup-2025-01-01T00-00-00-000Z'', backupDir = ''/app/backups'',
        mkdir_error = None, database_file = ''database.sql'',
        pg_dump_error = Some ''connection refused'',
        uploads_file = ''uploads.tar.gz'', tar_error = None,
        uploads_file_exists = True, du_stdout = Some ''4096'', writeFile_error = None,
        s3_bucket = None, s3_upload_error = None, create_completed_error = None,
        create_failed_error = None, cleanup_query_error = None\<rparr>
       ''admin-1'' ''full'' []
     = ([\<lparr>rec_backupId = ''backup-2025-01-01T00-00-00-000Z'', rec_type = ''full'',
          rec_size = None, rec_location = None, rec_status = ''failed'',
          rec_createdById = ''admin-1'',
          rec_error = Some ''Database backup failed: connection refused''\<rparr>],
        Inl ''Database backup failed: connection refused'')
   \<and> (\<exists>e. snd (createBackup
       \<lparr>backupId = ''backup-2025-01-01T00-00-00-000Z'', backupDir = ''/app/backups'',
        mkdir_error = None, database_file = ''database.sql'',
        pg_dump_error = Some ''connection refused'',
        uploads_file = ''uploads.tar.gz'', tar_error = None,
        uploads_file_exists = True, du_stdout = Some ''4096'', writeFile_error = None,
        s3_bucket = None, s3_upload_error = None, create_completed_error = None,
        create_failed_error = Some ''Cannot reach database server'', cleanup_query_error = None\<rparr>
       ''admin-1'' ''full'' [])
     = Inl e)"
proof -
  let ?ok = "\<lparr>backupId = ''backup-2025-01-01T00-00-00-000Z'', backupDir = ''/app/backups'',
        mkdir_error = None, database_file = ''database.sql'', pg_dump_error = None,
        uploads_file = ''uploads.tar.gz'', tar_error = None,
        uploads_file_exists = True, du_stdout = Some ''4096'', writeFile_error = None,
        s3_bucket = None, s3_upload_error = None, create_completed_error = None,
        create_failed_error = None, cleanup_query_error = None\<rparr>"
  let ?dump = "\<lparr>backupId = ''backup-2025-01-01T00-00-00-000Z'', backupDir = ''/app/backups'',
        mkdir_error = None, database_file = ''database.sql'',
        pg_dump_error = Some ''connection refused'',
        uploads_file = ''uploads.tar.gz'', tar_error = None,
        uploads_file_exists = True, du_stdout = Some ''4096'', writeFile_error = None,
        s3_bucket = None, s3_upload_error = None, create_completed_error = None,
        create_failed_error = None, cleanup_query_error = None\<rparr>"
  let ?down = "\<lparr>backupId = ''backup-2025-01-01T00-00-00-000Z'', backupDir = ''/app/backups'',
        mkdir_error = None, database_file = ''database.sql'',
        pg_dump_error = Some ''connection refused'',
        uploads_file = ''uploads.tar.gz'', tar_error = None,
        uploads_file_exists = True, du_stdout = Some ''4096'', writeFile_error = None,
        s3_bucket = None, s3_upload_error = None, create_completed_error = None,
        create_failed_error = Some ''Cannot reach database server'', cleanup_query_error = None\<rparr>"
  have h1: "first_fatal_error ?ok = None"
    by (simp add: first_fatal_error_def)
  have h2: "first_fatal_error ?dump = Some ''Database backup failed: connection refused''
              \<and> create_failed_error ?dump = None"
    by (simp add: first_fatal_error_def)
  have h3: "first_fatal_error ?down = Some ''Database backup failed: connection refused''"
    by (simp add: first_fatal_error_def)
  from createBackup_records [of ?ok "''admin-1''" "''full''" "[]", THEN conjunct1] h1
  obtain old r res where "createBackup ?ok ''admin-1'' ''full'' [] = (old @ [r], Inr res)"
    and "rec_status r = ''completed''"
    by blast
  then have c1: "rec_status (last (fst (createBackup ?ok ''admin-1'' ''full'' []))) = ''completed''"
    by simp
  have c2: "createBackup ?dump ''admin-1'' ''full'' []
     = ([\<lparr>rec_backupId = ''backup-2025-01-01T00-00-00-000Z'', rec_type = ''full'',
          rec_size = None, rec_location = None, rec_status = ''failed'',
          rec_createdById = ''admin-1'',
          rec_error = Some ''Database backup failed: connection refused''\<rparr>],
        Inl ''Database backup failed: connection refused'')"
    using createBackup_records [of ?dump "''admin-1''" "''full''" "[]", THEN conjunct2, THEN conjunct1] h2
    by simp
  have c3: "\<exists>e. snd (createBackup ?down ''admin-1'' ''full'' []) = Inl e"
    using createBackup_records [of ?down "''admin-1''" "''full''" "[]", THEN conjunct2, THEN conjunct2] h3
    by blast
  from c1 c2 c3 show ?thesis
    by blast
qed


section \<open>Properties of the reminder batch\<close>















end
